theory Spec2Isabelle
  imports Main "HOL-Library.AList"
begin

section \<open>JavaScript values\<close>

text \<open>
  The resume document and the server's replies are untyped at run time: the
  \<^verbatim>\<open>content\<close> of an \<^verbatim>\<open>UpdateMessage\<close> is declared \<^verbatim>\<open>any\<close>, and the replies come from
  \<^verbatim>\<open>res.json()\<close>. Values are therefore modelled as JSON values plus \<^verbatim>\<open>undefined\<close>
  (the result of reading an absent property). An object is the list of its
  properties in insertion order. An array in such a position is the object whose
  keys are its indices: the code modelled here only reads and writes named
  properties of these values, tests them with \<^verbatim>\<open>typeof\<close>, \<^verbatim>\<open>in\<close> and for truthiness, and
  for all of these an array behaves as any other object. Numbers are only ever
  tested for truthiness and kept as integers.
\<close>

datatype jv =
    JUndefined
  | JNull
  | JBool bool
  | JNum int
  | JStr string
  | JObj "(string \<times> jv) list"

text \<open>Exceptions. \<^verbatim>\<open>new Error(m)\<close> carries its message: a literal, one of the two
  \<^verbatim>\<open>HTTP ...\<close> templates, or the string of a value taken from a reply.\<close>

datatype message =
    Literal string
  | Http int
  | HttpBody int string
  | OfValue jv

datatype exn =
    TypeError
  | FetchRejected
  | SyntaxError
  | Error message

text \<open>\<^verbatim>\<open>v.k\<close>: reading a property of \<^verbatim>\<open>null\<close> or \<^verbatim>\<open>undefined\<close> throws a TypeError; a primitive
  has none of the properties the code asks for.\<close>

fun get_prop :: "jv \<Rightarrow> string \<Rightarrow> exn + jv" where
  "get_prop JUndefined k = Inl TypeError"
| "get_prop JNull k = Inl TypeError"
| "get_prop (JObj ps) k = Inr (case map_of ps k of None \<Rightarrow> JUndefined | Some v \<Rightarrow> v)"
| "get_prop v k = Inr JUndefined"

text \<open>\<^verbatim>\<open>v.k = x\<close> in module (strict) code: only an object takes the property.\<close>

fun set_prop :: "jv \<Rightarrow> string \<Rightarrow> jv \<Rightarrow> exn + jv" where
  "set_prop (JObj ps) k x = Inr (JObj (AList.update k x ps))"
| "set_prop v k x = Inl TypeError"

definition nullish :: "jv \<Rightarrow> bool" where
  "nullish v \<longleftrightarrow> v = JUndefined \<or> v = JNull"

text \<open>\<^verbatim>\<open>v?.k\<close>\<close>

definition opt_prop :: "jv \<Rightarrow> string \<Rightarrow> jv" where
  "opt_prop v k = (case get_prop v k of Inl e \<Rightarrow> JUndefined | Inr x \<Rightarrow> x)"

text \<open>\<^verbatim>\<open>a ?? b\<close>\<close>

definition coalesce :: "jv \<Rightarrow> jv \<Rightarrow> jv" where
  "coalesce a b = (if nullish a then b else a)"

fun truthy :: "jv \<Rightarrow> bool" where
  "truthy JUndefined = False"
| "truthy JNull = False"
| "truthy (JBool b) = b"
| "truthy (JNum n) = (n \<noteq> 0)"
| "truthy (JStr s) = (s \<noteq> [])"
| "truthy (JObj ps) = True"

text \<open>\<^verbatim>\<open>typeof v === 'object'\<close> (true of \<^verbatim>\<open>null\<close> as well)\<close>

fun typeof_object :: "jv \<Rightarrow> bool" where
  "typeof_object JNull = True"
| "typeof_object (JObj ps) = True"
| "typeof_object v = False"

text \<open>\<^verbatim>\<open>k in v\<close>, used only behind the guard that \<^verbatim>\<open>v\<close> is a truthy object\<close>

fun has_key :: "string \<Rightarrow> jv \<Rightarrow> bool" where
  "has_key k (JObj ps) = (map_of ps k \<noteq> None)"
| "has_key k v = False"

definition bindE :: "'e + 'a \<Rightarrow> ('a \<Rightarrow> 'e + 'b) \<Rightarrow> 'e + 'b" where
  "bindE m f = (case m of Inl e \<Rightarrow> Inl e | Inr x \<Rightarrow> f x)"

section \<open>The resume document (types/resume.ts)\<close>

record resumeData =
  name :: jv
  aboutMe :: jv
  education :: "jv list"
  experience :: "jv list"
  contact :: "jv list"
  skills :: "jv list"
  customSections :: "jv list"

datatype changeType = Add | Update | Delete

record updateMessage =
  sectionName :: string
  entryId :: string
  changeType :: changeType
  content :: jv

text \<open>\<^verbatim>\<open>initialData\<close> of ResumeBuilder.tsx\<close>

definition initialData :: resumeData where
  "initialData = \<lparr> name = JObj [(''firstName'', JStr ''''), (''lastName'', JStr '''')],
     aboutMe = JObj [(''description'', JStr ''''), (''polishedDescription'', JStr '''')],
     education = [], experience = [], contact = [], skills = [], customSections = [] \<rparr>"

section \<open>The document store: handleUpdate (ResumeBuilder.tsx)\<close>

text \<open>\<^verbatim>\<open>Array.prototype.findIndex\<close>: the index of the first element the callback accepts,
  \<open>-1\<close> when there is none; an exception of the callback ends the search.\<close>

fun findIndexFrom :: "('a \<Rightarrow> exn + bool) \<Rightarrow> 'a list \<Rightarrow> int \<Rightarrow> exn + int" where
  "findIndexFrom p [] i = Inr (- 1)"
| "findIndexFrom p (x # xs) i =
     (case p x of
        Inl e \<Rightarrow> Inl e
      | Inr b \<Rightarrow> if b then Inr i else findIndexFrom p xs (i + 1))"

definition findIndex :: "('a \<Rightarrow> exn + bool) \<Rightarrow> 'a list \<Rightarrow> exn + int" where
  "findIndex p xs = findIndexFrom p xs 0"

text \<open>\<^verbatim>\<open>Array.prototype.filter\<close>\<close>

fun filterE :: "('a \<Rightarrow> exn + bool) \<Rightarrow> 'a list \<Rightarrow> exn + 'a list" where
  "filterE p [] = Inr []"
| "filterE p (x # xs) =
     (case p x of
        Inl e \<Rightarrow> Inl e
      | Inr b \<Rightarrow> (case filterE p xs of
                    Inl e \<Rightarrow> Inl e
                  | Inr ys \<Rightarrow> Inr (if b then x # ys else ys)))"

text \<open>The callbacks \<^verbatim>\<open>e => e.id === update.entryId\<close> and \<^verbatim>\<open>e => e.id !== update.entryId\<close>.
  \<^verbatim>\<open>entryId\<close> is a string, so strict equality holds exactly of that string.\<close>

definition id_is :: "string \<Rightarrow> jv \<Rightarrow> exn + bool" where
  "id_is eid e = bindE (get_prop e ''id'') (\<lambda>v. Inr (v = JStr eid))"

definition id_is_not :: "string \<Rightarrow> jv \<Rightarrow> exn + bool" where
  "id_is_not eid e = bindE (get_prop e ''id'') (\<lambda>v. Inr (v \<noteq> JStr eid))"

text \<open>The body that handleUpdate repeats for each of the five list-valued sections:
  \<^verbatim>\<open>push\<close> on add, \<^verbatim>\<open>findIndex\<close> and an indexed store on update, \<^verbatim>\<open>filter\<close> on delete.\<close>

definition applyToList :: "updateMessage \<Rightarrow> jv list \<Rightarrow> exn + jv list" where
  "applyToList u xs =
     (case changeType u of
        Add \<Rightarrow> Inr (xs @ [content u])
      | Update \<Rightarrow>
          bindE (findIndex (id_is (entryId u)) xs)
            (\<lambda>i. Inr (if i \<ge> 0 then xs[nat i := content u] else xs))
      | Delete \<Rightarrow> filterE (id_is_not (entryId u)) xs)"

text \<open>One run of the state updater of handleUpdate on the previous document. \<open>Inl\<close> is
  the exception the updater throws.\<close>

definition handleUpdate :: "updateMessage \<Rightarrow> resumeData \<Rightarrow> exn + resumeData" where
  "handleUpdate u prev =
     (if sectionName u = ''name'' then Inr (prev\<lparr>name := content u\<rparr>)
      else if sectionName u = ''aboutMe'' then Inr (prev\<lparr>aboutMe := content u\<rparr>)
      else if sectionName u = ''education'' then
        bindE (applyToList u (education prev)) (\<lambda>xs. Inr (prev\<lparr>education := xs\<rparr>))
      else if sectionName u = ''experience'' then
        bindE (applyToList u (experience prev)) (\<lambda>xs. Inr (prev\<lparr>experience := xs\<rparr>))
      else if sectionName u = ''contact'' then
        bindE (applyToList u (contact prev)) (\<lambda>xs. Inr (prev\<lparr>contact := xs\<rparr>))
      else if sectionName u = ''skills'' then
        bindE (applyToList u (skills prev)) (\<lambda>xs. Inr (prev\<lparr>skills := xs\<rparr>))
      else if sectionName u = ''customSections'' then
        bindE (applyToList u (customSections prev)) (\<lambda>xs. Inr (prev\<lparr>customSections := xs\<rparr>))
      else Inr prev)"

text \<open>A sequence of messages, applied in order; the first exception ends it.\<close>

fun handleUpdates :: "updateMessage list \<Rightarrow> resumeData \<Rightarrow> exn + resumeData" where
  "handleUpdates [] d = Inr d"
| "handleUpdates (u # us) d = bindE (handleUpdate u d) (handleUpdates us)"

subsection \<open>The replay of a message sequence, in the words of the specification\<close>

text \<open>An entry carries the id \<open>eid\<close>.\<close>

fun has_id :: "string \<Rightarrow> jv \<Rightarrow> bool" where
  "has_id eid (JObj ps) = (map_of ps ''id'' = Some (JStr eid))"
| "has_id eid v = False"

fun replace_entry :: "string \<Rightarrow> jv \<Rightarrow> jv list \<Rightarrow> jv list" where
  "replace_entry eid c [] = []"
| "replace_entry eid c (e # es) =
     (if has_id eid e then c # es else e # replace_entry eid c es)"

text \<open>add appends the content; update replaces the entry whose id equals entryId (the
  first one, should several carry it); delete removes the entries with that id; update
  and delete leave a list without such an entry as it is.\<close>

definition replay_step :: "jv list \<Rightarrow> updateMessage \<Rightarrow> jv list" where
  "replay_step xs u =
     (case changeType u of
        Add \<Rightarrow> xs @ [content u]
      | Update \<Rightarrow> if list_ex (has_id (entryId u)) xs then replace_entry (entryId u) (content u) xs else xs
      | Delete \<Rightarrow> if list_ex (has_id (entryId u)) xs then filter (\<lambda>e. \<not> has_id (entryId u) e) xs else xs)"

definition replay :: "updateMessage list \<Rightarrow> jv list \<Rightarrow> jv list" where
  "replay us xs = foldl replay_step xs us"

text \<open>The list a list-valued section names.\<close>

definition sectionList :: "string \<Rightarrow> resumeData \<Rightarrow> jv list" where
  "sectionList s d =
     (if s = ''education'' then education d
      else if s = ''experience'' then experience d
      else if s = ''contact'' then contact d
      else if s = ''skills'' then skills d
      else if s = ''customSections'' then customSections d
      else [])"

definition listSections :: "string list" where
  "listSections = [''education'', ''experience'', ''contact'', ''skills'', ''customSections'']"

text \<open>A message whose content, when it is stored, is a value and not \<^verbatim>\<open>null\<close> or
  \<^verbatim>\<open>undefined\<close> (delete messages carry \<^verbatim>\<open>null\<close>, which is never stored).\<close>

definition storesValue :: "updateMessage \<Rightarrow> bool" where
  "storesValue u \<longleftrightarrow> changeType u = Delete \<or> \<not> nullish (content u)"

section \<open>Replies of the server\<close>

text \<open>What \<^verbatim>\<open>fetch\<close> yields: the promise is rejected (transport failure), or it resolves
  to a response with a status, whose body can be read as text and, when it is JSON, parsed
  (\<open>bodyJson = None\<close>: \<^verbatim>\<open>res.json()\<close> is rejected with a SyntaxError).\<close>

record httpResponse =
  status :: int
  bodyText :: string
  bodyJson :: "jv option"

datatype fetchResult = Rejected | Resolved httpResponse

definition ok :: "httpResponse \<Rightarrow> bool" where
  "ok r \<longleftrightarrow> 200 \<le> status r \<and> status r \<le> 299"

text \<open>\<^verbatim>\<open>await res.json()\<close>\<close>

definition json :: "httpResponse \<Rightarrow> exn + jv" where
  "json r = (case bodyJson r of None \<Rightarrow> Inl SyntaxError | Some v \<Rightarrow> Inr v)"

text \<open>\<^verbatim>\<open>new Error(v || 'literal')\<close>\<close>

definition errorOr :: "jv \<Rightarrow> string \<Rightarrow> exn" where
  "errorOr v lit = Error (if truthy v then OfValue v else Literal lit)"

section \<open>Polishing: handlePolish (ResumeBuilder.tsx)\<close>

record submitTrigger =
  trigSection :: string
  trigEntryId :: string
  trigChangeType :: string
  timestamp :: int

text \<open>The state of the ResumeBuilder component, with the exceptions written to
  \<^verbatim>\<open>console.error\<close>.\<close>

record builderState =
  resumeData :: resumeData
  isPolishing :: "string option"
  submitTrigger :: "submitTrigger option"
  consoleErrors :: "exn list"

text \<open>\<^verbatim>\<open>getImprovedText\<close>\<close>

definition getImprovedText :: "jv \<Rightarrow> jv" where
  "getImprovedText obj =
     coalesce (coalesce (coalesce (coalesce (opt_prop obj ''polishedDescription'')
       (opt_prop obj ''description'')) (opt_prop obj ''summary'')) (opt_prop obj ''text''))
       (JStr [])"

text \<open>The block "Normalize backend payload": from the parsed reply to \<^verbatim>\<open>normalized\<close>.\<close>

definition normalizePayload :: "jv \<Rightarrow> exn + jv" where
  "normalizePayload data =
     bindE (get_prop data ''improvedContent'') (\<lambda>ic.
     bindE (if nullish ic then get_prop data ''content'' else Inr ic) (\<lambda>c.
       let envelope = coalesce c data in
       if truthy envelope \<and> typeof_object envelope \<and> has_key ''content'' envelope
       then get_prop envelope ''content''
       else Inr envelope))"

text \<open>The \<^verbatim>\<open>try\<close> block up to \<^verbatim>\<open>improvedText\<close>: the pair of \<^verbatim>\<open>normalized\<close> and
  \<^verbatim>\<open>improvedText\<close>, or the exception thrown.\<close>

definition polishReply :: "fetchResult \<Rightarrow> exn + jv \<times> jv" where
  "polishReply r =
     (case r of
        Rejected \<Rightarrow> Inl FetchRejected
      | Resolved res \<Rightarrow>
          if \<not> ok res then Inl (Error (Http (status res)))
          else
            bindE (json res) (\<lambda>data.
            bindE (get_prop data ''success'') (\<lambda>success.
              if \<not> truthy success then
                bindE (get_prop data ''message'') (\<lambda>m. Inl (errorOr m ''Polish failed''))
              else
                bindE (normalizePayload data) (\<lambda>normalized.
                  Inr (normalized, getImprovedText normalized)))))"

text \<open>Both assignments \<^verbatim>\<open>x.polishedDescription = t; x.description = t\<close>\<close>

definition setPolished :: "jv \<Rightarrow> jv \<Rightarrow> exn + jv" where
  "setPolished x t =
     bindE (set_prop x ''polishedDescription'' t) (\<lambda>x'. set_prop x' ''description'' t)"

text \<open>The state updater of handlePolish. The index \<open>i\<close> comes from \<^verbatim>\<open>findIndex\<close> and is
  within the list when it is not negative.\<close>

definition polishUpdater :: "string \<Rightarrow> string \<Rightarrow> jv \<Rightarrow> jv \<Rightarrow> resumeData \<Rightarrow> exn + resumeData" where
  "polishUpdater sec eid normalized improvedText prev =
     (if sec = ''aboutMe'' then
        (if truthy improvedText then
           bindE (setPolished (aboutMe prev) improvedText) (\<lambda>a. Inr (prev\<lparr>aboutMe := a\<rparr>))
         else Inr prev)
      else if sec = ''education'' then
        bindE (findIndex (id_is eid) (education prev)) (\<lambda>i.
          if i \<ge> 0 \<and> truthy improvedText then
            bindE (setPolished (education prev ! nat i) improvedText) (\<lambda>e.
              Inr (prev\<lparr>education := (education prev)[nat i := e]\<rparr>))
          else Inr prev)
      else if sec = ''experience'' then
        bindE (findIndex (id_is eid) (experience prev)) (\<lambda>i.
          if i \<ge> 0 \<and> truthy improvedText then
            bindE (setPolished (experience prev ! nat i) improvedText) (\<lambda>e.
              Inr (prev\<lparr>experience := (experience prev)[nat i := e]\<rparr>))
          else Inr prev)
      else if sec = ''customSections'' then
        bindE (findIndex (id_is eid) (customSections prev)) (\<lambda>i.
          if i \<ge> 0 then
            (let improvedContentText = coalesce (opt_prop normalized ''content'') improvedText in
             if truthy improvedContentText then
               bindE (set_prop (customSections prev ! nat i) ''content'' improvedContentText) (\<lambda>e.
                 Inr (prev\<lparr>customSections := (customSections prev)[nat i := e]\<rparr>))
             else Inr prev)
          else Inr prev)
      else Inr prev)"

text \<open>handlePolish, given the reply to its request and the clock reading \<open>now\<close> of
  \<^verbatim>\<open>Date.now()\<close>. An exception of the \<^verbatim>\<open>try\<close> block is caught and logged; \<open>Inl\<close> is an
  exception of the state updater, which runs outside the \<^verbatim>\<open>try\<close> block.\<close>

definition handlePolish ::
    "fetchResult \<Rightarrow> int \<Rightarrow> string \<Rightarrow> string \<Rightarrow> builderState \<Rightarrow> exn + builderState" where
  "handlePolish reply now sec eid st =
     (case polishReply reply of
        Inl e \<Rightarrow> Inr (st\<lparr>isPolishing := None, consoleErrors := consoleErrors st @ [e]\<rparr>)
      | Inr (normalized, improvedText) \<Rightarrow>
          bindE (polishUpdater sec eid normalized improvedText (resumeData st)) (\<lambda>d.
            Inr (st\<lparr>resumeData := d,
                    submitTrigger := Some \<lparr>trigSection = sec, trigEntryId = eid,
                      trigChangeType = ''update'', timestamp = now\<rparr>,
                    isPolishing := None\<rparr>)))"

section \<open>The preview: scrapeTemplate, initializeLatex, updateLatexSection (PDFPreview.tsx)\<close>

text \<open>The requests the component sends. The body of a generation request is kept as its
  parts: the header payload holds \<^verbatim>\<open>data.name\<close> and \<^verbatim>\<open>data.contact\<close>, the section payload the
  action, the section name and the section's data (one value, or the list of entries).\<close>

datatype sectionData = SectionValue jv | SectionEntries "jv list"

datatype request =
    TemplateScrape
  | LatexHeader jv "jv list"
  | LatexSection string string sectionData

text \<open>The server: its reply to a request, which may depend on the requests received
  before.\<close>

type_synonym server = "request list \<Rightarrow> request \<Rightarrow> fetchResult"

text \<open>The state of the PDFPreview component, with \<^verbatim>\<open>isInitializedRef.current\<close> and the log of
  the requests sent. \<open>error\<close> holds the exception whose message is shown.\<close>

record previewState =
  latexCode :: jv
  isUpdating :: bool
  error :: "exn option"
  updates :: nat
  hasGeneratedPreview :: bool
  isTemplateScraped :: bool
  isScrapingTemplate :: bool
  isInitialized :: bool
  requests :: "request list"

definition initialPreview :: previewState where
  "initialPreview = \<lparr> latexCode = JStr [], isUpdating = False, error = None, updates = 0,
     hasGeneratedPreview = False, isTemplateScraped = False, isScrapingTemplate = False,
     isInitialized = False, requests = [] \<rparr>"

definition fetch :: "server \<Rightarrow> request \<Rightarrow> previewState \<Rightarrow> fetchResult \<times> previewState" where
  "fetch srv rq st = (srv (requests st) rq, st\<lparr>requests := requests st @ [rq]\<rparr>)"

text \<open>\<^verbatim>\<open>hasData\<close>: the truth value of the chain of \<^verbatim>\<open>||\<close>, evaluated left to right.\<close>

definition hasData :: "resumeData \<Rightarrow> exn + bool" where
  "hasData d =
     bindE (get_prop (name d) ''firstName'') (\<lambda>f. if truthy f then Inr True else
     bindE (get_prop (name d) ''lastName'') (\<lambda>l. if truthy l then Inr True else
     bindE (get_prop (aboutMe d) ''description'') (\<lambda>a. if truthy a then Inr True else
       Inr (length (contact d) > 0 \<or> length (education d) > 0 \<or> length (experience d) > 0
            \<or> length (skills d) > 0 \<or> length (customSections d) > 0))))"

text \<open>The \<^verbatim>\<open>try\<close> block of scrapeTemplate after the request.\<close>

definition scrapeReply :: "fetchResult \<Rightarrow> exn + unit" where
  "scrapeReply r =
     (case r of
        Rejected \<Rightarrow> Inl FetchRejected
      | Resolved res \<Rightarrow>
          if \<not> ok res then Inl (Error (Http (status res)))
          else
            bindE (json res) (\<lambda>result.
            bindE (get_prop result ''success'') (\<lambda>success.
              if truthy success then Inr ()
              else bindE (get_prop result ''error'') (\<lambda>e.
                Inl (errorOr e ''Template scraping failed'')))))"

text \<open>A function of the component reads the state variable \<^verbatim>\<open>isTemplateScraped\<close> and the
  prop \<^verbatim>\<open>data\<close> as they were at the render that created it (\<open>snap\<close>, \<open>data\<close>); a
  \<^verbatim>\<open>set...\<close> call and the ref act on the current state (\<open>st\<close>).\<close>

definition scrapeTemplate :: "server \<Rightarrow> previewState \<Rightarrow> previewState \<Rightarrow> previewState" where
  "scrapeTemplate srv snap st =
     (if isTemplateScraped snap then st
      else
        (case fetch srv TemplateScrape (st\<lparr>isScrapingTemplate := True\<rparr>) of
           (r, st1) \<Rightarrow>
             (case scrapeReply r of
                Inr u \<Rightarrow> st1\<lparr>isTemplateScraped := True, isScrapingTemplate := False\<rparr>
              | Inl e \<Rightarrow> st1\<lparr>error := Some e, isScrapingTemplate := False\<rparr>)))"

text \<open>The handling of the reply to \<^verbatim>\<open>/api/latex-update\<close>, the same in initializeLatex and
  updateLatexSection up to the literal of the last message: the LaTeX code, or the
  exception thrown.\<close>

definition latexReply :: "string \<Rightarrow> fetchResult \<Rightarrow> exn + jv" where
  "latexReply lit r =
     (case r of
        Rejected \<Rightarrow> Inl FetchRejected
      | Resolved res \<Rightarrow>
          if \<not> ok res then Inl (Error (HttpBody (status res) (bodyText res)))
          else
            bindE (json res) (\<lambda>result.
            bindE (get_prop result ''success'') (\<lambda>success.
            bindE (get_prop result ''latexCode'') (\<lambda>code.
              if truthy success \<and> truthy code then Inr code
              else bindE (get_prop result ''error'') (\<lambda>e. Inl (errorOr e lit))))))"

text \<open>initializeLatex. The result pairs the exception the call ends with (none when it
  returns) with the state after it.\<close>

definition initializeLatex ::
    "server \<Rightarrow> resumeData \<Rightarrow> previewState \<Rightarrow> previewState \<Rightarrow> exn option \<times> previewState" where
  "initializeLatex srv data snap st =
     (case hasData data of
        Inl e \<Rightarrow> (Some e, st)
      | Inr has \<Rightarrow>
          if \<not> has \<or> \<not> isTemplateScraped snap then (None, st)
          else
            (case fetch srv (LatexHeader (name data) (contact data))
                    (scrapeTemplate srv snap (st\<lparr>isUpdating := True, error := None\<rparr>)) of
               (r, st1) \<Rightarrow>
                 (case latexReply ''No LaTeX code returned from header update'' r of
                    Inr code \<Rightarrow>
                      (None, st1\<lparr>latexCode := code, isInitialized := True,
                               hasGeneratedPreview := True, isUpdating := False\<rparr>)
                  | Inl e \<Rightarrow> (None, st1\<lparr>error := Some e, isUpdating := False\<rparr>))))"

text \<open>The \<^verbatim>\<open>switch\<close> of updateLatexSection\<close>

definition sectionDataOf :: "string \<Rightarrow> resumeData \<Rightarrow> sectionData" where
  "sectionDataOf sec data =
     (if sec = ''aboutMe'' then SectionValue (aboutMe data)
      else if sec = ''education'' then SectionEntries (education data)
      else if sec = ''experience'' then SectionEntries (experience data)
      else if sec = ''skills'' then SectionEntries (skills data)
      else if sec = ''customSections'' then SectionEntries (customSections data)
      else SectionValue JNull)"

definition updateLatexSection ::
    "server \<Rightarrow> resumeData \<Rightarrow> submitTrigger \<Rightarrow> previewState \<Rightarrow> previewState
      \<Rightarrow> exn option \<times> previewState" where
  "updateLatexSection srv data updateInfo snap st =
     (let st0 = (if \<not> isTemplateScraped snap then scrapeTemplate srv snap st else st) in
      if \<not> isInitialized st0 then initializeLatex srv data snap st0
      else
        (case fetch srv (LatexSection (trigChangeType updateInfo) (trigSection updateInfo)
                          (sectionDataOf (trigSection updateInfo) data))
                (st0\<lparr>isUpdating := True, error := None\<rparr>) of
           (r, st1) \<Rightarrow>
             (case latexReply ''No LaTeX code returned from section update'' r of
                Inr code \<Rightarrow>
                  (None, st1\<lparr>latexCode := code, updates := updates st1 + 1, isUpdating := False\<rparr>)
              | Inl e \<Rightarrow>
                  (case initializeLatex srv data snap st1 of
                     (x, st2) \<Rightarrow> (x, st2\<lparr>isUpdating := False\<rparr>)))))"

text \<open>The effect on \<^verbatim>\<open>onSubmitUpdate\<close>, and the events that reach the three functions: a
  submit trigger, the button "Scrape Template", the buttons "Try Again" and "Regenerate".
  Each event is handled by the functions of the latest render, so that their snapshot is
  the state the event finds.\<close>

definition onSubmitUpdate ::
    "server \<Rightarrow> resumeData \<Rightarrow> submitTrigger \<Rightarrow> previewState \<Rightarrow> previewState
      \<Rightarrow> exn option \<times> previewState" where
  "onSubmitUpdate srv data t snap st =
     (if trigSection t = ''header'' then initializeLatex srv data snap st
      else updateLatexSection srv data t snap st)"

datatype event = Submit submitTrigger | ClickScrapeTemplate | ClickRegenerate

definition fire :: "server \<Rightarrow> resumeData \<times> event \<Rightarrow> previewState \<Rightarrow> previewState" where
  "fire srv de st =
     (case de of
        (data, Submit t) \<Rightarrow> snd (onSubmitUpdate srv data t st st)
      | (data, ClickScrapeTemplate) \<Rightarrow> scrapeTemplate srv st st
      | (data, ClickRegenerate) \<Rightarrow> snd (initializeLatex srv data st st))"

text \<open>A session: the events in order, each with the document it finds.\<close>

fun session :: "server \<Rightarrow> (resumeData \<times> event) list \<Rightarrow> previewState \<Rightarrow> previewState" where
  "session srv [] st = st"
| "session srv (de # des) st = session srv des (fire srv de st)"

text \<open>A request for generation, and one for the generation of a section.\<close>

fun isGeneration :: "request \<Rightarrow> bool" where
  "isGeneration TemplateScrape = False"
| "isGeneration r = True"

fun isSectionGeneration :: "request \<Rightarrow> bool" where
  "isSectionGeneration (LatexSection a s d) = True"
| "isSectionGeneration r = False"

text \<open>The \<open>j\<close>-th request of a log is a template acquisition that the server answered
  with success.\<close>

definition acquiredAt :: "server \<Rightarrow> request list \<Rightarrow> nat \<Rightarrow> bool" where
  "acquiredAt srv log j \<longleftrightarrow>
     j < length log \<and> log ! j = TemplateScrape
     \<and> scrapeReply (srv (take j log) TemplateScrape) = Inr ()"

text \<open>Every generation request of a log comes after a template acquisition that the
  server answered with success.\<close>

definition generationsAfterAcquisition :: "server \<Rightarrow> request list \<Rightarrow> bool" where
  "generationsAfterAcquisition srv log \<longleftrightarrow>
     (\<forall>i < length log. isGeneration (log ! i) \<longrightarrow> (\<exists>j < i. acquiredAt srv log j))"

text \<open>The invariant of a session: an initialized generator has its template, a template
  recorded as acquired was acquired with success, and generation waited for it.\<close>

definition previewInv :: "server \<Rightarrow> previewState \<Rightarrow> bool" where
  "previewInv srv st \<longleftrightarrow>
     (isInitialized st \<longrightarrow> isTemplateScraped st)
     \<and> (isTemplateScraped st \<longrightarrow> (\<exists>j. acquiredAt srv (requests st) j))
     \<and> generationsAfterAcquisition srv (requests st)"

section \<open>Adding entries: handleAdd and addSection of the section components\<close>

text \<open>The string of a clock reading in a template literal such as \<^verbatim>\<open>`edu_${Date.now()}`\<close>:
  the decimal digits of the integer, after a minus sign when it is negative.\<close>

definition digitChar :: "nat \<Rightarrow> char" where
  "digitChar d = ''0123456789'' ! d"

fun digitsOf :: "nat \<Rightarrow> string" where
  "digitsOf n = (if n < 10 then [digitChar n] else digitsOf (n div 10) @ [digitChar (n mod 10)])"

declare digitsOf.simps [simp del]

definition showInt :: "int \<Rightarrow> string" where
  "showInt i = (if i < 0 then CHR ''-'' # digitsOf (nat (- i)) else digitsOf (nat i))"

text \<open>The number a string of digits denotes.\<close>

definition digitValue :: "char \<Rightarrow> nat" where
  "digitValue c = of_char c - 48"

definition valueOf :: "string \<Rightarrow> nat" where
  "valueOf s = foldl (\<lambda>a c. 10 * a + digitValue c) 0 s"

text \<open>An array literal: the object whose keys are the indices.\<close>

definition jsArray :: "jv list \<Rightarrow> jv" where
  "jsArray xs = JObj (zip (map digitsOf [0..<length xs]) xs)"

text \<open>The form state \<^verbatim>\<open>newEducation\<close> of EducationSection. The description is a value:
  \<^verbatim>\<open>polishNewDraft\<close> stores the improved text of a reply in it.\<close>

record educationForm =
  degree :: string
  institution :: string
  startDate :: string
  endDate :: string
  description :: jv

text \<open>\<^verbatim>\<open>{ id: `edu_${Date.now()}`, ...newEducation }\<close>\<close>

definition educationEntry :: "int \<Rightarrow> educationForm \<Rightarrow> jv" where
  "educationEntry now new =
     JObj [(''id'', JStr (''edu_'' @ showInt now)),
           (''degree'', JStr (degree new)),
           (''institution'', JStr (institution new)),
           (''startDate'', JStr (startDate new)),
           (''endDate'', JStr (endDate new)),
           (''description'', description new)]"

text \<open>handleAdd of EducationSection at the clock reading \<open>now\<close>: the message passed to
  \<^verbatim>\<open>onUpdate\<close>, or none when the degree or the institution is empty.\<close>

definition educationHandleAdd :: "int \<Rightarrow> educationForm \<Rightarrow> updateMessage option" where
  "educationHandleAdd now new =
     (if degree new \<noteq> [] \<and> institution new \<noteq> [] then
        Some \<lparr>sectionName = ''education'', entryId = ''edu_'' @ showInt now, changeType = Add,
              content = educationEntry now new\<rparr>
      else None)"

text \<open>The form state \<^verbatim>\<open>newExperience\<close> of ExperienceSection (its fields \<^verbatim>\<open>startDate\<close>,
  \<^verbatim>\<open>endDate\<close>, \<^verbatim>\<open>description\<close> and \<^verbatim>\<open>keywords\<close> carry the prefix \<open>exp\<close> here), and its handleAdd.\<close>

record experienceForm =
  title :: string
  company :: string
  expStartDate :: string
  expEndDate :: string
  expDescription :: jv
  expKeywords :: "string list"

definition experienceEntry :: "int \<Rightarrow> experienceForm \<Rightarrow> jv" where
  "experienceEntry now new =
     JObj [(''id'', JStr (''exp_'' @ showInt now)),
           (''title'', JStr (title new)),
           (''company'', JStr (company new)),
           (''startDate'', JStr (expStartDate new)),
           (''endDate'', JStr (expEndDate new)),
           (''description'', expDescription new),
           (''keywords'', jsArray (map JStr (expKeywords new)))]"

definition experienceHandleAdd :: "int \<Rightarrow> experienceForm \<Rightarrow> updateMessage option" where
  "experienceHandleAdd now new =
     (if title new \<noteq> [] \<and> company new \<noteq> [] then
        Some \<lparr>sectionName = ''experience'', entryId = ''exp_'' @ showInt now, changeType = Add,
              content = experienceEntry now new\<rparr>
      else None)"

text \<open>The form state \<^verbatim>\<open>newContact\<close> of ContactSection, with its fields \<^verbatim>\<open>type\<close> and \<^verbatim>\<open>value\<close>,
  and its handleAdd.\<close>

record contactForm =
  contactType :: string
  contactValue :: string

definition contactEntry :: "int \<Rightarrow> contactForm \<Rightarrow> jv" where
  "contactEntry now new =
     JObj [(''id'', JStr (''contact_'' @ showInt now)),
           (''type'', JStr (contactType new)),
           (''value'', JStr (contactValue new))]"

definition contactHandleAdd :: "int \<Rightarrow> contactForm \<Rightarrow> updateMessage option" where
  "contactHandleAdd now new =
     (if contactType new \<noteq> [] \<and> contactValue new \<noteq> [] then
        Some \<lparr>sectionName = ''contact'', entryId = ''contact_'' @ showInt now, changeType = Add,
              content = contactEntry now new\<rparr>
      else None)"

text \<open>\<^verbatim>\<open>Array.prototype.some\<close>\<close>

fun someE :: "('a \<Rightarrow> exn + bool) \<Rightarrow> 'a list \<Rightarrow> exn + bool" where
  "someE p [] = Inr False"
| "someE p (x # xs) =
     (case p x of
        Inl e \<Rightarrow> Inl e
      | Inr b \<Rightarrow> if b then Inr True else someE p xs)"

text \<open>The callback \<^verbatim>\<open>s => s.skill.toLowerCase() === newSkill.trim().toLowerCase()\<close>; only a
  string has the method. The string methods \<^verbatim>\<open>trim\<close> and \<^verbatim>\<open>toLowerCase\<close> of JavaScript are
  parameters of the model.\<close>

definition sameSkill :: "(string \<Rightarrow> string) \<Rightarrow> string \<Rightarrow> jv \<Rightarrow> exn + bool" where
  "sameSkill toLowerCase wanted s =
     bindE (get_prop s ''skill'') (\<lambda>v.
       case v of
         JStr x \<Rightarrow> Inr (toLowerCase x = toLowerCase wanted)
       | _ \<Rightarrow> Inl TypeError)"

definition skillEntry :: "int \<Rightarrow> string \<Rightarrow> jv" where
  "skillEntry now skill =
     JObj [(''id'', JStr (''skill_'' @ showInt now)), (''skill'', JStr skill)]"

text \<open>handleAdd of SkillsSection, with the list \<open>data\<close> of the skills stored.\<close>

definition skillsHandleAdd ::
    "(string \<Rightarrow> string) \<Rightarrow> (string \<Rightarrow> string) \<Rightarrow> int \<Rightarrow> string \<Rightarrow> jv list
      \<Rightarrow> exn + updateMessage option" where
  "skillsHandleAdd trim toLowerCase now newSkill data =
     (if trim newSkill = [] then Inr None
      else
        bindE (someE (sameSkill toLowerCase (trim newSkill)) data) (\<lambda>known.
          if known then Inr None
          else Inr (Some \<lparr>sectionName = ''skills'', entryId = ''skill_'' @ showInt now,
                            changeType = Add, content = skillEntry now (trim newSkill)\<rparr>)))"

text \<open>addSection of CustomSectionsSection: no guard, and the id is
  \<^verbatim>\<open>Date.now().toString()\<close> without a prefix.\<close>

definition addSection :: "int \<Rightarrow> updateMessage" where
  "addSection now =
     \<lparr>sectionName = ''customSections'', entryId = showInt now, changeType = Add,
      content = JObj [(''id'', JStr (showInt now)), (''title'', JStr []), (''content'', JStr [])]\<rparr>"

text \<open>An add operation of one of the five section components, and the message it passes
  to \<^verbatim>\<open>onUpdate\<close> at the clock reading \<open>now\<close> on the document \<open>d\<close>. The extra field
  \<^verbatim>\<open>triggerLatex\<close> that four of the components put in the message is read by no code of
  the repository and is not part of the message here.\<close>

datatype addOperation =
    AddEducation educationForm
  | AddExperience experienceForm
  | AddContact contactForm
  | AddSkill string
  | AddCustomSection

definition handleAdd ::
    "(string \<Rightarrow> string) \<Rightarrow> (string \<Rightarrow> string) \<Rightarrow> int \<Rightarrow> addOperation \<Rightarrow> resumeData
      \<Rightarrow> exn + updateMessage option" where
  "handleAdd trim toLowerCase now a d =
     (case a of
        AddEducation new \<Rightarrow> Inr (educationHandleAdd now new)
      | AddExperience new \<Rightarrow> Inr (experienceHandleAdd now new)
      | AddContact new \<Rightarrow> Inr (contactHandleAdd now new)
      | AddSkill newSkill \<Rightarrow> skillsHandleAdd trim toLowerCase now newSkill (skills d)
      | AddCustomSection \<Rightarrow> Inr (Some (addSection now)))"

text \<open>A sequence of add operations, each at its clock reading; the message of each goes
  through handleUpdate.\<close>

fun adds ::
    "(string \<Rightarrow> string) \<Rightarrow> (string \<Rightarrow> string) \<Rightarrow> (int \<times> addOperation) list \<Rightarrow> resumeData
      \<Rightarrow> exn + resumeData" where
  "adds trim toLowerCase [] d = Inr d"
| "adds trim toLowerCase ((now, a) # evs) d =
     bindE (handleAdd trim toLowerCase now a d) (\<lambda>m.
       case m of
         None \<Rightarrow> adds trim toLowerCase evs d
       | Some u \<Rightarrow> bindE (handleUpdate u d) (adds trim toLowerCase evs))"

text \<open>The ids of the entries of a list.\<close>

definition entryIds :: "jv list \<Rightarrow> jv list" where
  "entryIds xs = map (\<lambda>e. opt_prop e ''id'') xs"

text \<open>The list an add operation adds to, the prefix of the ids of a list, the clock
  readings of the operations of a sequence that add to a list, and the condition under
  which a component passes a message on.\<close>

fun targetOf :: "addOperation \<Rightarrow> string" where
  "targetOf (AddEducation new) = ''education''"
| "targetOf (AddExperience new) = ''experience''"
| "targetOf (AddContact new) = ''contact''"
| "targetOf (AddSkill newSkill) = ''skills''"
| "targetOf AddCustomSection = ''customSections''"

definition idPrefix :: "string \<Rightarrow> string" where
  "idPrefix s =
     (if s = ''education'' then ''edu_''
      else if s = ''experience'' then ''exp_''
      else if s = ''contact'' then ''contact_''
      else if s = ''skills'' then ''skill_''
      else [])"

definition readings :: "string \<Rightarrow> (int \<times> addOperation) list \<Rightarrow> int list" where
  "readings s evs = map fst (filter (\<lambda>(t, a). targetOf a = s) evs)"

fun guardPasses ::
    "(string \<Rightarrow> string) \<Rightarrow> (string \<Rightarrow> string) \<Rightarrow> addOperation \<Rightarrow> resumeData \<Rightarrow> bool" where
  "guardPasses trim toLowerCase (AddEducation new) d = (degree new \<noteq> [] \<and> institution new \<noteq> [])"
| "guardPasses trim toLowerCase (AddExperience new) d = (title new \<noteq> [] \<and> company new \<noteq> [])"
| "guardPasses trim toLowerCase (AddContact new) d = (contactType new \<noteq> [] \<and> contactValue new \<noteq> [])"
| "guardPasses trim toLowerCase (AddSkill newSkill) d =
     (trim newSkill \<noteq> [] \<and> someE (sameSkill toLowerCase (trim newSkill)) (skills d) = Inr False)"
| "guardPasses trim toLowerCase AddCustomSection d = True"

section \<open>Properties of the document store\<close>

lemma id_is_has_id: "\<not> nullish e \<Longrightarrow> id_is eid e = Inr (has_id eid e)"
  by (cases e) (auto simp: id_is_def bindE_def nullish_def split: option.splits)

lemma id_is_not_has_id: "\<not> nullish e \<Longrightarrow> id_is_not eid e = Inr (\<not> has_id eid e)"
  by (cases e) (auto simp: id_is_not_def bindE_def nullish_def split: option.splits)

lemma findIndexFrom_none:
  "list_all (\<lambda>e. \<not> nullish e) xs \<Longrightarrow> \<not> list_ex (has_id eid) xs \<Longrightarrow>
     findIndexFrom (id_is eid) xs i = Inr (- 1)"
  by (induction xs arbitrary: i) (auto simp: id_is_has_id)

lemma findIndexFrom_some:
  "list_all (\<lambda>e. \<not> nullish e) xs \<Longrightarrow> list_ex (has_id eid) xs \<Longrightarrow>
     \<exists>k. findIndexFrom (id_is eid) xs i = Inr (i + int k) \<and> xs[k := c] = replace_entry eid c xs"
proof (induction xs arbitrary: i)
  case Nil
  then show ?case by simp
next
  case (Cons x xs)
  show ?case
  proof (cases "has_id eid x")
    case True
    with Cons.prems have "findIndexFrom (id_is eid) (x # xs) i = Inr (i + int 0) \<and> (x # xs)[0 := c] = replace_entry eid c (x # xs)"
      by (simp add: id_is_has_id)
    then show ?thesis by blast
  next
    case False
    with Cons.prems have "list_all (\<lambda>e. \<not> nullish e) xs" "list_ex (has_id eid) xs" by auto
    from Cons.IH[OF this, of "i + 1"] obtain k where
      k: "findIndexFrom (id_is eid) xs (i + 1) = Inr (i + 1 + int k)" "xs[k := c] = replace_entry eid c xs"
      by blast
    with False Cons.prems have "findIndexFrom (id_is eid) (x # xs) i = Inr (i + int (Suc k)) \<and> (x # xs)[Suc k := c] = replace_entry eid c (x # xs)"
      by (simp add: id_is_has_id)
    then show ?thesis by blast
  qed
qed

lemma filterE_filter:
  "list_all (\<lambda>e. \<not> nullish e) xs \<Longrightarrow>
     filterE (id_is_not eid) xs = Inr (filter (\<lambda>e. \<not> has_id eid e) xs)"
  by (induction xs) (auto simp: id_is_not_has_id)

lemma filter_no_id: "\<not> list_ex (has_id eid) xs \<Longrightarrow> filter (\<lambda>e. \<not> has_id eid e) xs = xs"
  by (induction xs) auto

lemma applyToList_replay:
  assumes "list_all (\<lambda>e. \<not> nullish e) xs" "storesValue u"
  shows "applyToList u xs = Inr (replay_step xs u)"
proof (cases "changeType u")
  case Add
  then show ?thesis by (simp add: applyToList_def replay_step_def)
next
  case Update
  show ?thesis
  proof (cases "list_ex (has_id (entryId u)) xs")
    case True
    from findIndexFrom_some[OF assms(1) True, of 0 "content u"] obtain k where
      "findIndexFrom (id_is (entryId u)) xs 0 = Inr (int k)" "xs[k := content u] = replace_entry (entryId u) (content u) xs"
      by auto
    with Update True show ?thesis
      by (simp add: applyToList_def replay_step_def findIndex_def bindE_def)
  next
    case False
    with Update findIndexFrom_none[OF assms(1) False, of 0] show ?thesis
      by (simp add: applyToList_def replay_step_def findIndex_def bindE_def)
  qed
next
  case Delete
  then show ?thesis using assms(1)
    by (simp add: applyToList_def replay_step_def filterE_filter filter_no_id)
qed

lemma replace_entry_values:
  "\<not> nullish c \<Longrightarrow> list_all (\<lambda>e. \<not> nullish e) ys \<Longrightarrow>
     list_all (\<lambda>e. \<not> nullish e) (replace_entry eid c ys)"
  by (induction ys) auto

lemma filter_values:
  "list_all (\<lambda>e. \<not> nullish e) ys \<Longrightarrow> list_all (\<lambda>e. \<not> nullish e) (filter q ys)"
  by (induction ys) auto

lemma replay_step_values:
  assumes "list_all (\<lambda>e. \<not> nullish e) xs" "storesValue u"
  shows "list_all (\<lambda>e. \<not> nullish e) (replay_step xs u)"
  using assms
  by (cases "changeType u")
     (simp_all add: replay_step_def storesValue_def replace_entry_values filter_values)

lemma handleUpdate_list:
  assumes "s \<in> set listSections" "sectionName u = s" "list_all (\<lambda>e. \<not> nullish e) (sectionList s d)" "storesValue u"
  shows "\<exists>d'. handleUpdate u d = Inr d' \<and> sectionList s d' = replay_step (sectionList s d) u"
  using assms(1,2) applyToList_replay[OF assms(3,4)]
  by (auto simp: listSections_def handleUpdate_def sectionList_def bindE_def)

lemma handleUpdates_list:
  assumes "s \<in> set listSections"
    and "list_all (\<lambda>u. sectionName u = s \<and> storesValue u) us"
    and "list_all (\<lambda>e. \<not> nullish e) (sectionList s d)"
  shows "\<exists>d'. handleUpdates us d = Inr d' \<and> sectionList s d' = foldl replay_step (sectionList s d) us"
  using assms(2,3)
proof (induction us arbitrary: d)
  case Nil
  then show ?case by simp
next
  case (Cons u us)
  from Cons.prems have u: "sectionName u = s" "storesValue u" by simp_all
  from handleUpdate_list[OF assms(1) u(1) Cons.prems(2) u(2)] obtain d1 where
    d1: "handleUpdate u d = Inr d1" "sectionList s d1 = replay_step (sectionList s d) u"
    by blast
  have "list_all (\<lambda>e. \<not> nullish e) (sectionList s d1)"
    using replay_step_values[OF Cons.prems(2) u(2)] d1(2) by simp
  moreover from Cons.prems have "list_all (\<lambda>u. sectionName u = s \<and> storesValue u) us" by simp
  ultimately obtain d' where
    "handleUpdates us d1 = Inr d'" "sectionList s d' = foldl replay_step (sectionList s d1) us"
    using Cons.IH by blast
  with d1 show ?case by (simp add: bindE_def)
qed

lemma handleUpdate_absent:
  assumes "s \<in> set listSections" "sectionName u = s" "changeType u \<noteq> Add"
    and "list_all (\<lambda>e. \<not> nullish e) (sectionList s d)"
    and "\<not> list_ex (has_id (entryId u)) (sectionList s d)"
  shows "handleUpdate u d = Inr d"
proof -
  have "applyToList u (sectionList s d) = Inr (sectionList s d)"
  proof (cases "changeType u")
    case Add
    with assms(3) show ?thesis by simp
  next
    case Update
    with findIndexFrom_none[OF assms(4,5), of 0] show ?thesis
      by (simp add: applyToList_def findIndex_def bindE_def)
  next
    case Delete
    with assms(4,5) show ?thesis
      by (simp add: applyToList_def filterE_filter filter_no_id)
  qed
  with assms(1,2) show ?thesis
    by (auto simp: listSections_def handleUpdate_def sectionList_def bindE_def)
qed

text \<open>
  Claim C1. For a list-valued section (education, experience, contact, skills,
  customSections) whose entries are values, every sequence of add, update and delete
  messages to that section whose stored contents are values is applied without an
  exception, and the resulting list is the replay of the sequence in order: add appends
  the content, update replaces the entry whose id equals entryId, delete removes it.
  An update or delete whose entryId matches no entry returns the document unchanged.
\<close>

theorem handleUpdate_replays_messages:
  assumes "s \<in> set listSections"
    and "list_all (\<lambda>u. sectionName u = s \<and> storesValue u) us"
    and "list_all (\<lambda>e. \<not> nullish e) (sectionList s d)"
  shows "(\<exists>d'. handleUpdates us d = Inr d' \<and> sectionList s d' = replay us (sectionList s d))
       \<and> (\<forall>u. sectionName u = s \<and> changeType u \<noteq> Add
              \<and> \<not> list_ex (has_id (entryId u)) (sectionList s d)
            \<longrightarrow> handleUpdate u d = Inr d)"
  using handleUpdates_list[OF assms] handleUpdate_absent[OF assms(1) _ _ assms(3)]
  unfolding replay_def by blast

theorem handleUpdate_replays_messages_witness:
  "(\<exists>d'. handleUpdates
      [\<lparr>sectionName = ''education'', entryId = ''edu_1'', changeType = Add,
          content = JObj [(''id'', JStr ''edu_1''), (''degree'', JStr ''BSc'')]\<rparr>,
       \<lparr>sectionName = ''education'', entryId = ''edu_2'', changeType = Add,
          content = JObj [(''id'', JStr ''edu_2''), (''degree'', JStr ''MSc'')]\<rparr>,
       \<lparr>sectionName = ''education'', entryId = ''edu_1'', changeType = Update,
          content = JObj [(''id'', JStr ''edu_1''), (''degree'', JStr ''BA'')]\<rparr>,
       \<lparr>sectionName = ''education'', entryId = ''edu_9'', changeType = Update,
          content = JObj [(''id'', JStr ''edu_9''), (''degree'', JStr ''PhD'')]\<rparr>,
       \<lparr>sectionName = ''education'', entryId = ''edu_2'', changeType = Delete,
          content = JNull\<rparr>] initialData = Inr d'
     \<and> sectionList ''education'' d' = [JObj [(''id'', JStr ''edu_1''), (''degree'', JStr ''BA'')]])
   \<and> handleUpdate \<lparr>sectionName = ''education'', entryId = ''edu_1'', changeType = Delete,
          content = JNull\<rparr> initialData = Inr initialData"
  using handleUpdate_replays_messages [of "''education''"
      "[\<lparr>sectionName = ''education'', entryId = ''edu_1'', changeType = Add,
          content = JObj [(''id'', JStr ''edu_1''), (''degree'', JStr ''BSc'')]\<rparr>,
       \<lparr>sectionName = ''education'', entryId = ''edu_2'', changeType = Add,
          content = JObj [(''id'', JStr ''edu_2''), (''degree'', JStr ''MSc'')]\<rparr>,
       \<lparr>sectionName = ''education'', entryId = ''edu_1'', changeType = Update,
          content = JObj [(''id'', JStr ''edu_1''), (''degree'', JStr ''BA'')]\<rparr>,
       \<lparr>sectionName = ''education'', entryId = ''edu_9'', changeType = Update,
          content = JObj [(''id'', JStr ''edu_9''), (''degree'', JStr ''PhD'')]\<rparr>,
       \<lparr>sectionName = ''education'', entryId = ''edu_2'', changeType = Delete,
          content = JNull\<rparr>]" initialData]
  by (simp add: listSections_def storesValue_def nullish_def sectionList_def initialData_def
      replay_def replay_step_def)

text \<open>
  Claim C10. For the singleton sections name and aboutMe, handleUpdate stores the
  message's content as the section's value whatever the changeType is; a delete
  message, whose content is null, leaves the section holding null.
\<close>

theorem handleUpdate_singleton_replaces:
  "(sectionName u = ''name'' \<longrightarrow> handleUpdate u d = Inr (d\<lparr>name := content u\<rparr>))
   \<and> (sectionName u = ''aboutMe'' \<longrightarrow> handleUpdate u d = Inr (d\<lparr>aboutMe := content u\<rparr>))"
  by (simp add: handleUpdate_def)

theorem handleUpdate_singleton_replaces_witness:
  "handleUpdate \<lparr>sectionName = ''name'', entryId = ''name'', changeType = Delete,
       content = JNull\<rparr> initialData = Inr (initialData\<lparr>name := JNull\<rparr>)
   \<and> handleUpdate \<lparr>sectionName = ''aboutMe'', entryId = ''about'', changeType = Delete,
       content = JNull\<rparr> initialData = Inr (initialData\<lparr>aboutMe := JNull\<rparr>)"
  using handleUpdate_singleton_replaces [of "\<lparr>sectionName = ''name'', entryId = ''name'',
        changeType = Delete, content = JNull\<rparr>" initialData]
    handleUpdate_singleton_replaces [of "\<lparr>sectionName = ''aboutMe'', entryId = ''about'',
        changeType = Delete, content = JNull\<rparr>" initialData]
  by simp

section \<open>Properties of polishing\<close>

lemma has_id_obj: "has_id eid e \<Longrightarrow> \<exists>ps. e = JObj ps"
  by (cases e) auto

lemma findIndexFrom_found:
  "list_all (\<lambda>e. \<not> nullish e) xs \<Longrightarrow> list_ex (has_id eid) xs \<Longrightarrow>
     \<exists>k. findIndexFrom (id_is eid) xs i = Inr (i + int k) \<and> k < length xs
        \<and> find (has_id eid) xs = Some (xs ! k) \<and> (\<forall>c. xs[k := c] = replace_entry eid c xs)"
proof (induction xs arbitrary: i)
  case Nil
  then show ?case by simp
next
  case (Cons x xs)
  show ?case
  proof (cases "has_id eid x")
    case True
    with Cons.prems have "findIndexFrom (id_is eid) (x # xs) i = Inr (i + int 0) \<and> 0 < length (x # xs)
        \<and> find (has_id eid) (x # xs) = Some ((x # xs) ! 0) \<and> (\<forall>c. (x # xs)[0 := c] = replace_entry eid c (x # xs))"
      by (simp add: id_is_has_id)
    then show ?thesis by blast
  next
    case False
    with Cons.prems have "list_all (\<lambda>e. \<not> nullish e) xs" "list_ex (has_id eid) xs" by auto
    from Cons.IH[OF this, of "i + 1"] obtain k where
      k: "findIndexFrom (id_is eid) xs (i + 1) = Inr (i + 1 + int k)" "k < length xs"
         "find (has_id eid) xs = Some (xs ! k)" "\<forall>c. xs[k := c] = replace_entry eid c xs"
      by blast
    with False Cons.prems have "findIndexFrom (id_is eid) (x # xs) i = Inr (i + int (Suc k)) \<and> Suc k < length (x # xs)
        \<and> find (has_id eid) (x # xs) = Some ((x # xs) ! Suc k) \<and> (\<forall>c. (x # xs)[Suc k := c] = replace_entry eid c (x # xs))"
      by (simp add: id_is_has_id)
    then show ?thesis by blast
  qed
qed

lemma findIndex_found:
  assumes "list_all (\<lambda>e. \<not> nullish e) xs" "list_ex (has_id eid) xs"
  shows "\<exists>k ps. findIndex (id_is eid) xs = Inr (int k) \<and> xs ! k = JObj ps
        \<and> find (has_id eid) xs = Some (JObj ps) \<and> (\<forall>c. xs[k := c] = replace_entry eid c xs)"
proof -
  from findIndexFrom_found[OF assms, of 0] obtain k where
    k: "findIndexFrom (id_is eid) xs 0 = Inr (int k)" "k < length xs"
       "find (has_id eid) xs = Some (xs ! k)" "\<forall>c. xs[k := c] = replace_entry eid c xs"
    by auto
  from k(3) have "has_id eid (xs ! k)" by (metis find_Some_iff)
  then obtain ps where "xs ! k = JObj ps" using has_id_obj by blast
  with k show ?thesis by (auto simp: findIndex_def)
qed

lemma findIndex_absent:
  "list_all (\<lambda>e. \<not> nullish e) xs \<Longrightarrow> \<not> list_ex (has_id eid) xs \<Longrightarrow>
     findIndex (id_is eid) xs = Inr (- 1)"
  by (simp add: findIndex_def findIndexFrom_none)

lemma findIndex_total:
  "list_all (\<lambda>e. \<not> nullish e) xs \<Longrightarrow> \<exists>i. findIndex (id_is eid) xs = Inr i"
  using findIndex_found[of xs eid] findIndex_absent[of xs eid] by blast

lemma setPolished_obj:
  "setPolished (JObj ps) t = Inr (JObj (AList.update ''description'' t (AList.update ''polishedDescription'' t ps)))"
  by (simp add: setPolished_def bindE_def)

lemma setPolished_polished:
  "\<exists>e'. setPolished (JObj ps) t = Inr e' \<and> get_prop e' ''polishedDescription'' = Inr t \<and> get_prop e' ''description'' = Inr t
   \<and> (\<forall>k. k \<noteq> ''polishedDescription'' \<and> k \<noteq> ''description'' \<longrightarrow> get_prop e' k = get_prop (JObj ps) k)"
  by (simp add: setPolished_obj update_conv')

lemma polishUpdater_falsy:
  assumes "\<not> truthy t" "sec = ''aboutMe'' \<or> sec = ''education'' \<or> sec = ''experience''"
    and "list_all (\<lambda>e. \<not> nullish e) (education d)" "list_all (\<lambda>e. \<not> nullish e) (experience d)"
  shows "polishUpdater sec eid n t d = Inr d"
proof -
  from findIndex_total[OF assms(3), of eid] obtain i where i: "findIndex (id_is eid) (education d) = Inr i" by blast
  from findIndex_total[OF assms(4), of eid] obtain j where j: "findIndex (id_is eid) (experience d) = Inr j" by blast
  from assms(2) consider "sec = ''aboutMe''" | "sec = ''education''" | "sec = ''experience''" by blast
  then show ?thesis
  proof cases
    case 1
    with assms(1) show ?thesis by (simp add: polishUpdater_def)
  next
    case 2
    with assms(1) i show ?thesis by (simp add: polishUpdater_def bindE_def)
  next
    case 3
    with assms(1) j show ?thesis by (simp add: polishUpdater_def bindE_def)
  qed
qed

lemma polishUpdater_list:
  assumes "truthy t" "list_all (\<lambda>e. \<not> nullish e) xs" "list_ex (has_id eid) xs"
  shows "\<exists>e e'. find (has_id eid) xs = Some e \<and>
     bindE (findIndex (id_is eid) xs) (\<lambda>i.
          if i \<ge> 0 \<and> truthy t then
            bindE (setPolished (xs ! nat i) t) (\<lambda>e. Inr (f (xs[nat i := e])))
          else Inr d) = Inr (f (replace_entry eid e' xs))
      \<and> get_prop e' ''polishedDescription'' = Inr t \<and> get_prop e' ''description'' = Inr t
      \<and> (\<forall>k. k \<noteq> ''polishedDescription'' \<and> k \<noteq> ''description'' \<longrightarrow> get_prop e' k = get_prop e k)"
proof -
  from findIndex_found[OF assms(2,3)] obtain k ps where
    k: "findIndex (id_is eid) xs = Inr (int k)" "xs ! k = JObj ps"
       "find (has_id eid) xs = Some (JObj ps)" "\<forall>c. xs[k := c] = replace_entry eid c xs"
    by blast
  from setPolished_polished[of ps t] obtain e' where
    e': "setPolished (JObj ps) t = Inr e'" "get_prop e' ''polishedDescription'' = Inr t" "get_prop e' ''description'' = Inr t"
     "\<forall>k. k \<noteq> ''polishedDescription'' \<and> k \<noteq> ''description'' \<longrightarrow> get_prop e' k = get_prop (JObj ps) k"
    by blast
  from k e' assms(1) have "bindE (findIndex (id_is eid) xs) (\<lambda>i.
          if i \<ge> 0 \<and> truthy t then
            bindE (setPolished (xs ! nat i) t) (\<lambda>e. Inr (f (xs[nat i := e])))
          else Inr d) = Inr (f (replace_entry eid e' xs))"
    by (simp add: bindE_def)
  with k(3) e'(2,3,4) show ?thesis by blast
qed

lemma polishUpdater_custom:
  assumes "truthy v" "list_all (\<lambda>e. \<not> nullish e) xs" "list_ex (has_id eid) xs"
  shows "\<exists>e e'. find (has_id eid) xs = Some e \<and>
     bindE (findIndex (id_is eid) xs) (\<lambda>i.
          if i \<ge> 0 then
            (let improvedContentText = v in
             if truthy improvedContentText then
               bindE (set_prop (xs ! nat i) ''content'' improvedContentText) (\<lambda>e. Inr (f (xs[nat i := e])))
             else Inr d)
          else Inr d) = Inr (f (replace_entry eid e' xs))
      \<and> get_prop e' ''content'' = Inr v
      \<and> (\<forall>k. k \<noteq> ''content'' \<longrightarrow> get_prop e' k = get_prop e k)"
proof -
  from findIndex_found[OF assms(2,3)] obtain k ps where
    k: "findIndex (id_is eid) xs = Inr (int k)" "xs ! k = JObj ps"
       "find (has_id eid) xs = Some (JObj ps)" "\<forall>c. xs[k := c] = replace_entry eid c xs"
    by blast
  let ?e' = "JObj (AList.update ''content'' v ps)"
  from k assms(1) have "bindE (findIndex (id_is eid) xs) (\<lambda>i.
          if i \<ge> 0 then
            (let improvedContentText = v in
             if truthy improvedContentText then
               bindE (set_prop (xs ! nat i) ''content'' improvedContentText) (\<lambda>e. Inr (f (xs[nat i := e])))
             else Inr d)
          else Inr d) = Inr (f (replace_entry eid ?e' xs))"
    by (simp add: bindE_def)
  moreover have "get_prop ?e' ''content'' = Inr v" "\<forall>k. k \<noteq> ''content'' \<longrightarrow> get_prop ?e' k = get_prop (JObj ps) k"
    by (simp_all add: update_conv')
  ultimately show ?thesis using k(3) by blast
qed

text \<open>
  Claim C4, as amended. getImprovedText tries the keys polishedDescription,
  description, summary and text in that order and returns the value of the first one
  that is present and not null (an empty string under an earlier key is returned even
  when a later key holds text); without such a key the result is the empty string. The
  envelopes {content:{description:X}}, {polishedDescription:X} and {summary:X} each
  yield the improved text X.
\<close>

theorem getImprovedText_first_present:
  "getImprovedText obj =
     (case find (\<lambda>v. \<not> nullish v)
        (map (opt_prop obj) [''polishedDescription'', ''description'', ''summary'', ''text'']) of
        Some v \<Rightarrow> v | None \<Rightarrow> JStr [])
   \<and> map_sum id getImprovedText
        (normalizePayload (JObj [(''content'', JObj [(''description'', JStr X)])])) = Inr (JStr X)
   \<and> map_sum id getImprovedText
        (normalizePayload (JObj [(''polishedDescription'', JStr X)])) = Inr (JStr X)
   \<and> map_sum id getImprovedText
        (normalizePayload (JObj [(''summary'', JStr X)])) = Inr (JStr X)"
  by (simp add: normalizePayload_def bindE_def nullish_def coalesce_def getImprovedText_def
      opt_prop_def Let_def)

text \<open>
  Claim C4 as stated fails: in a reply whose content holds an empty polishedDescription
  and the description "X", the first non-empty match is "X", and the improved text is
  the empty string.
\<close>

theorem getImprovedText_empty_match_counterexample:
  "getImprovedText (JObj [(''polishedDescription'', JStr []), (''description'', JStr ''X'')]) = JStr []
   \<and> polishReply (Resolved \<lparr>status = 200, bodyText = [], bodyJson = Some (JObj [(''success'', JBool True),
        (''content'', JObj [(''polishedDescription'', JStr []), (''description'', JStr ''X'')])])\<rparr>)
      = Inr (JObj [(''polishedDescription'', JStr []), (''description'', JStr ''X'')], JStr [])"
  by (simp add: polishReply_def ok_def json_def normalizePayload_def bindE_def nullish_def
      coalesce_def getImprovedText_def opt_prop_def Let_def)

lemma handlePolish_caught:
  "polishReply reply = Inl e \<Longrightarrow>
     handlePolish reply now sec eid st =
       Inr (st\<lparr>isPolishing := None, consoleErrors := consoleErrors st @ [e]\<rparr>)"
  by (simp add: handlePolish_def)

lemma polishReply_unsuccessful:
  assumes "ok res" "bodyJson res = Some data" "get_prop data ''success'' = Inr s" "\<not> truthy s"
  shows "\<exists>e. polishReply (Resolved res) = Inl e"
proof -
  from assms(3) obtain m where "get_prop data ''message'' = Inr m"
    by (cases data) auto
  with assms show ?thesis by (simp add: polishReply_def json_def bindE_def)
qed

text \<open>
  Claim C5, as amended. An exception of the try block of handlePolish is caught and
  logged, and the document and the submit trigger are left as they were; the block
  throws on a transport failure, on a status outside 200..299, on a body that is not
  JSON, and on a reply whose success field is falsy. A reply that succeeds with an empty
  improved text is not an error: for aboutMe, education and experience the document is
  left unchanged, nothing is logged, and the submit trigger is emitted.
\<close>

theorem handlePolish_failure:
  "(polishReply reply = Inl e \<longrightarrow>
      handlePolish reply now sec eid st =
        Inr (st\<lparr>isPolishing := None, consoleErrors := consoleErrors st @ [e]\<rparr>))
   \<and> polishReply Rejected = Inl FetchRejected
   \<and> (\<not> ok res \<longrightarrow> polishReply (Resolved res) = Inl (Error (Http (status res))))
   \<and> (ok res \<and> bodyJson res = None \<longrightarrow> polishReply (Resolved res) = Inl SyntaxError)
   \<and> (ok res \<and> bodyJson res = Some data \<and> get_prop data ''success'' = Inr s \<and> \<not> truthy s \<longrightarrow>
        (\<exists>e'. polishReply (Resolved res) = Inl e'))
   \<and> (polishReply reply = Inr (normalized, t) \<and> \<not> truthy t
        \<and> (sec = ''aboutMe'' \<or> sec = ''education'' \<or> sec = ''experience'')
        \<and> list_all (\<lambda>e. \<not> nullish e) (education (resumeData st))
        \<and> list_all (\<lambda>e. \<not> nullish e) (experience (resumeData st)) \<longrightarrow>
      handlePolish reply now sec eid st =
        Inr (st\<lparr>submitTrigger := Some \<lparr>trigSection = sec, trigEntryId = eid,
                  trigChangeType = ''update'', timestamp = now\<rparr>, isPolishing := None\<rparr>))"
proof -
  have a: "polishReply reply = Inl e \<longrightarrow>
      handlePolish reply now sec eid st =
        Inr (st\<lparr>isPolishing := None, consoleErrors := consoleErrors st @ [e]\<rparr>)"
    by (simp add: handlePolish_caught)
  have b: "polishReply Rejected = Inl FetchRejected"
    by (simp add: polishReply_def)
  have c: "\<not> ok res \<longrightarrow> polishReply (Resolved res) = Inl (Error (Http (status res)))"
    by (simp add: polishReply_def)
  have d: "ok res \<and> bodyJson res = None \<longrightarrow> polishReply (Resolved res) = Inl SyntaxError"
    by (simp add: polishReply_def json_def bindE_def)
  have f: "ok res \<and> bodyJson res = Some data \<and> get_prop data ''success'' = Inr s \<and> \<not> truthy s \<longrightarrow>
        (\<exists>e'. polishReply (Resolved res) = Inl e')"
    using polishReply_unsuccessful by blast
  have g: "polishReply reply = Inr (normalized, t) \<and> \<not> truthy t
        \<and> (sec = ''aboutMe'' \<or> sec = ''education'' \<or> sec = ''experience'')
        \<and> list_all (\<lambda>e. \<not> nullish e) (education (resumeData st))
        \<and> list_all (\<lambda>e. \<not> nullish e) (experience (resumeData st)) \<longrightarrow>
      handlePolish reply now sec eid st =
        Inr (st\<lparr>submitTrigger := Some \<lparr>trigSection = sec, trigEntryId = eid,
                  trigChangeType = ''update'', timestamp = now\<rparr>, isPolishing := None\<rparr>)"
    by (simp add: handlePolish_def polishUpdater_falsy bindE_def)
  from a b c d f g show ?thesis by blast
qed

theorem handlePolish_failure_witness:
  "handlePolish (Resolved \<lparr>status = 500, bodyText = ''oops'', bodyJson = None\<rparr>) 7 ''education'' ''edu_1''
      \<lparr>resumeData = initialData, isPolishing = Some ''edu_1'', submitTrigger = None, consoleErrors = []\<rparr>
    = Inr \<lparr>resumeData = initialData, isPolishing = None, submitTrigger = None,
          consoleErrors = [Error (Http 500)]\<rparr>
   \<and> handlePolish (Resolved \<lparr>status = 200, bodyText = [],
        bodyJson = Some (JObj [(''success'', JBool True), (''content'', JObj [])])\<rparr>) 7 ''education'' ''edu_1''
      \<lparr>resumeData = initialData, isPolishing = Some ''edu_1'', submitTrigger = None, consoleErrors = []\<rparr>
    = Inr \<lparr>resumeData = initialData, isPolishing = None,
          submitTrigger = Some \<lparr>trigSection = ''education'', trigEntryId = ''edu_1'',
            trigChangeType = ''update'', timestamp = 7\<rparr>, consoleErrors = []\<rparr>"
proof -
  let ?st = "\<lparr>resumeData = initialData, isPolishing = Some ''edu_1'', submitTrigger = None,
      consoleErrors = []\<rparr>"
  let ?bad = "Resolved \<lparr>status = 500, bodyText = ''oops'', bodyJson = None\<rparr>"
  let ?empty = "Resolved \<lparr>status = 200, bodyText = [],
        bodyJson = Some (JObj [(''success'', JBool True), (''content'', JObj [])])\<rparr>"
  have bad: "polishReply ?bad = Inl (Error (Http 500))"
    by (simp add: polishReply_def ok_def)
  have empty: "polishReply ?empty = Inr (JObj [], JStr [])"
    by (simp add: polishReply_def ok_def json_def bindE_def normalizePayload_def
        getImprovedText_def coalesce_def nullish_def opt_prop_def)
  have lists: "list_all (\<lambda>e. \<not> nullish e) (education (resumeData ?st))"
    "list_all (\<lambda>e. \<not> nullish e) (experience (resumeData ?st))"
    by (simp_all add: initialData_def)
  from handlePolish_failure [THEN conjunct1, rule_format, OF bad, of 7 "''education''" "''edu_1''" ?st]
  have a: "handlePolish ?bad 7 ''education'' ''edu_1'' ?st
      = Inr \<lparr>resumeData = initialData, isPolishing = None, submitTrigger = None,
          consoleErrors = [Error (Http 500)]\<rparr>"
    by simp
  from handlePolish_failure [THEN conjunct2, THEN conjunct2, THEN conjunct2, THEN conjunct2,
      THEN conjunct2, rule_format, of ?empty "JObj []" "JStr []" "''education''" ?st 7 "''edu_1''"]
    empty lists
  have b: "handlePolish ?empty 7 ''education'' ''edu_1'' ?st
    = Inr \<lparr>resumeData = initialData, isPolishing = None,
          submitTrigger = Some \<lparr>trigSection = ''education'', trigEntryId = ''edu_1'',
            trigChangeType = ''update'', timestamp = 7\<rparr>, consoleErrors = []\<rparr>"
    by simp
  from a b show ?thesis by (rule conjI)
qed

text \<open>
  Claim C5 as stated fails: a successful reply without improved text signals no
  error, and a submit trigger is emitted.
\<close>

theorem handlePolish_empty_text_counterexample:
  "polishReply (Resolved \<lparr>status = 200, bodyText = [],
        bodyJson = Some (JObj [(''success'', JBool True), (''content'', JObj [])])\<rparr>)
     = Inr (JObj [], JStr [])
   \<and> handlePolish (Resolved \<lparr>status = 200, bodyText = [],
        bodyJson = Some (JObj [(''success'', JBool True), (''content'', JObj [])])\<rparr>) 7 ''aboutMe'' ''about''
      \<lparr>resumeData = initialData, isPolishing = Some ''about'', submitTrigger = None, consoleErrors = []\<rparr>
    = Inr \<lparr>resumeData = initialData, isPolishing = None,
          submitTrigger = Some \<lparr>trigSection = ''aboutMe'', trigEntryId = ''about'',
            trigChangeType = ''update'', timestamp = 7\<rparr>, consoleErrors = []\<rparr>"
  by (simp add: handlePolish_def polishUpdater_def polishReply_def ok_def json_def bindE_def
      normalizePayload_def getImprovedText_def coalesce_def nullish_def opt_prop_def)

lemma handlePolish_aboutMe:
  assumes "polishReply reply = Inr (normalized, t)" "truthy t" "aboutMe (resumeData st) = JObj ps"
  shows "\<exists>a. handlePolish reply now ''aboutMe'' eid st =
        Inr (st\<lparr>resumeData := (resumeData st)\<lparr>aboutMe := a\<rparr>,
                submitTrigger := Some \<lparr>trigSection = ''aboutMe'', trigEntryId = eid,
                  trigChangeType = ''update'', timestamp = now\<rparr>,
                isPolishing := None\<rparr>)
      \<and> get_prop a ''polishedDescription'' = Inr t \<and> get_prop a ''description'' = Inr t
      \<and> (\<forall>k. k \<noteq> ''polishedDescription'' \<and> k \<noteq> ''description'' \<longrightarrow>
            get_prop a k = get_prop (aboutMe (resumeData st)) k)"
proof -
  from setPolished_polished[of ps t] obtain a where
    a: "setPolished (JObj ps) t = Inr a" "get_prop a ''polishedDescription'' = Inr t"
       "get_prop a ''description'' = Inr t"
       "\<forall>k. k \<noteq> ''polishedDescription'' \<and> k \<noteq> ''description'' \<longrightarrow> get_prop a k = get_prop (JObj ps) k"
    by blast
  from assms a(1) have "handlePolish reply now ''aboutMe'' eid st =
        Inr (st\<lparr>resumeData := (resumeData st)\<lparr>aboutMe := a\<rparr>,
                submitTrigger := Some \<lparr>trigSection = ''aboutMe'', trigEntryId = eid,
                  trigChangeType = ''update'', timestamp = now\<rparr>,
                isPolishing := None\<rparr>)"
    by (simp add: handlePolish_def polishUpdater_def bindE_def)
  with a(2,3,4) assms(3) show ?thesis by auto
qed

lemma handlePolish_education:
  assumes "polishReply reply = Inr (normalized, t)" "truthy t"
    and "list_all (\<lambda>e. \<not> nullish e) (education (resumeData st))"
    and "list_ex (has_id eid) (education (resumeData st))"
  shows "\<exists>e e'. find (has_id eid) (education (resumeData st)) = Some e
      \<and> handlePolish reply now ''education'' eid st =
        Inr (st\<lparr>resumeData := (resumeData st)\<lparr>education :=
                   replace_entry eid e' (education (resumeData st))\<rparr>,
                submitTrigger := Some \<lparr>trigSection = ''education'', trigEntryId = eid,
                  trigChangeType = ''update'', timestamp = now\<rparr>,
                isPolishing := None\<rparr>)
      \<and> get_prop e' ''polishedDescription'' = Inr t \<and> get_prop e' ''description'' = Inr t
      \<and> (\<forall>k. k \<noteq> ''polishedDescription'' \<and> k \<noteq> ''description'' \<longrightarrow>
            get_prop e' k = get_prop e k)"
proof -
  from polishUpdater_list[OF assms(2,3,4), of "\<lambda>xs. (resumeData st)\<lparr>education := xs\<rparr>" "resumeData st"]
  obtain e e' where
    e: "find (has_id eid) (education (resumeData st)) = Some e"
       "polishUpdater ''education'' eid normalized t (resumeData st) =
          Inr ((resumeData st)\<lparr>education := replace_entry eid e' (education (resumeData st))\<rparr>)"
       "get_prop e' ''polishedDescription'' = Inr t" "get_prop e' ''description'' = Inr t"
       "\<forall>k. k \<noteq> ''polishedDescription'' \<and> k \<noteq> ''description'' \<longrightarrow> get_prop e' k = get_prop e k"
    unfolding polishUpdater_def by auto
  from assms(1) e(2) have "handlePolish reply now ''education'' eid st =
        Inr (st\<lparr>resumeData := (resumeData st)\<lparr>education :=
                   replace_entry eid e' (education (resumeData st))\<rparr>,
                submitTrigger := Some \<lparr>trigSection = ''education'', trigEntryId = eid,
                  trigChangeType = ''update'', timestamp = now\<rparr>,
                isPolishing := None\<rparr>)"
    by (simp add: handlePolish_def bindE_def)
  with e(1,3,4,5) show ?thesis by blast
qed

lemma handlePolish_experience:
  assumes "polishReply reply = Inr (normalized, t)" "truthy t"
    and "list_all (\<lambda>e. \<not> nullish e) (experience (resumeData st))"
    and "list_ex (has_id eid) (experience (resumeData st))"
  shows "\<exists>e e'. find (has_id eid) (experience (resumeData st)) = Some e
      \<and> handlePolish reply now ''experience'' eid st =
        Inr (st\<lparr>resumeData := (resumeData st)\<lparr>experience :=
                   replace_entry eid e' (experience (resumeData st))\<rparr>,
                submitTrigger := Some \<lparr>trigSection = ''experience'', trigEntryId = eid,
                  trigChangeType = ''update'', timestamp = now\<rparr>,
                isPolishing := None\<rparr>)
      \<and> get_prop e' ''polishedDescription'' = Inr t \<and> get_prop e' ''description'' = Inr t
      \<and> (\<forall>k. k \<noteq> ''polishedDescription'' \<and> k \<noteq> ''description'' \<longrightarrow>
            get_prop e' k = get_prop e k)"
proof -
  from polishUpdater_list[OF assms(2,3,4), of "\<lambda>xs. (resumeData st)\<lparr>experience := xs\<rparr>" "resumeData st"]
  obtain e e' where
    e: "find (has_id eid) (experience (resumeData st)) = Some e"
       "polishUpdater ''experience'' eid normalized t (resumeData st) =
          Inr ((resumeData st)\<lparr>experience := replace_entry eid e' (experience (resumeData st))\<rparr>)"
       "get_prop e' ''polishedDescription'' = Inr t" "get_prop e' ''description'' = Inr t"
       "\<forall>k. k \<noteq> ''polishedDescription'' \<and> k \<noteq> ''description'' \<longrightarrow> get_prop e' k = get_prop e k"
    unfolding polishUpdater_def by auto
  from assms(1) e(2) have "handlePolish reply now ''experience'' eid st =
        Inr (st\<lparr>resumeData := (resumeData st)\<lparr>experience :=
                   replace_entry eid e' (experience (resumeData st))\<rparr>,
                submitTrigger := Some \<lparr>trigSection = ''experience'', trigEntryId = eid,
                  trigChangeType = ''update'', timestamp = now\<rparr>,
                isPolishing := None\<rparr>)"
    by (simp add: handlePolish_def bindE_def)
  with e(1,3,4,5) show ?thesis by blast
qed

lemma handlePolish_customSections:
  assumes "polishReply reply = Inr (normalized, t)"
    and "truthy (coalesce (opt_prop normalized ''content'') t)"
    and "list_all (\<lambda>e. \<not> nullish e) (customSections (resumeData st))"
    and "list_ex (has_id eid) (customSections (resumeData st))"
  shows "\<exists>e e'. find (has_id eid) (customSections (resumeData st)) = Some e
      \<and> handlePolish reply now ''customSections'' eid st =
        Inr (st\<lparr>resumeData := (resumeData st)\<lparr>customSections :=
                   replace_entry eid e' (customSections (resumeData st))\<rparr>,
                submitTrigger := Some \<lparr>trigSection = ''customSections'', trigEntryId = eid,
                  trigChangeType = ''update'', timestamp = now\<rparr>,
                isPolishing := None\<rparr>)
      \<and> get_prop e' ''content'' = Inr (coalesce (opt_prop normalized ''content'') t)
      \<and> (\<forall>k. k \<noteq> ''content'' \<longrightarrow> get_prop e' k = get_prop e k)"
proof -
  from polishUpdater_custom[OF assms(2,3,4), of "\<lambda>xs. (resumeData st)\<lparr>customSections := xs\<rparr>" "resumeData st"]
  obtain e e' where
    e: "find (has_id eid) (customSections (resumeData st)) = Some e"
       "polishUpdater ''customSections'' eid normalized t (resumeData st) =
          Inr ((resumeData st)\<lparr>customSections := replace_entry eid e' (customSections (resumeData st))\<rparr>)"
       "get_prop e' ''content'' = Inr (coalesce (opt_prop normalized ''content'') t)"
       "\<forall>k. k \<noteq> ''content'' \<longrightarrow> get_prop e' k = get_prop e k"
    unfolding polishUpdater_def by auto
  from assms(1) e(2) have "handlePolish reply now ''customSections'' eid st =
        Inr (st\<lparr>resumeData := (resumeData st)\<lparr>customSections :=
                   replace_entry eid e' (customSections (resumeData st))\<rparr>,
                submitTrigger := Some \<lparr>trigSection = ''customSections'', trigEntryId = eid,
                  trigChangeType = ''update'', timestamp = now\<rparr>,
                isPolishing := None\<rparr>)"
    by (simp add: handlePolish_def bindE_def)
  with e(1,3,4) show ?thesis by blast
qed

text \<open>
  Claim C6. After a successful reply with a non-empty improved text, handlePolish sets
  both polishedDescription and description of the target (aboutMe, or the education or
  experience entry with the given id) to the improved text, keeps its other properties,
  and emits a submit trigger for the section; for a customSections entry it writes the
  improved value to content and leaves every other property, polishedDescription
  included, as it was.
\<close>

theorem handlePolish_sets_improved_text:
  assumes "polishReply reply = Inr (normalized, t)"
  shows "(truthy t \<and> aboutMe (resumeData st) = JObj ps \<longrightarrow>
      (\<exists>a. handlePolish reply now ''aboutMe'' eid st =
          Inr (st\<lparr>resumeData := (resumeData st)\<lparr>aboutMe := a\<rparr>,
                  submitTrigger := Some \<lparr>trigSection = ''aboutMe'', trigEntryId = eid,
                    trigChangeType = ''update'', timestamp = now\<rparr>,
                  isPolishing := None\<rparr>)
        \<and> get_prop a ''polishedDescription'' = Inr t \<and> get_prop a ''description'' = Inr t
        \<and> (\<forall>k. k \<noteq> ''polishedDescription'' \<and> k \<noteq> ''description'' \<longrightarrow>
              get_prop a k = get_prop (aboutMe (resumeData st)) k)))
   \<and> (truthy t \<and> list_all (\<lambda>e. \<not> nullish e) (education (resumeData st))
        \<and> list_ex (has_id eid) (education (resumeData st)) \<longrightarrow>
      (\<exists>e e'. find (has_id eid) (education (resumeData st)) = Some e
        \<and> handlePolish reply now ''education'' eid st =
          Inr (st\<lparr>resumeData := (resumeData st)\<lparr>education :=
                     replace_entry eid e' (education (resumeData st))\<rparr>,
                  submitTrigger := Some \<lparr>trigSection = ''education'', trigEntryId = eid,
                    trigChangeType = ''update'', timestamp = now\<rparr>,
                  isPolishing := None\<rparr>)
        \<and> get_prop e' ''polishedDescription'' = Inr t \<and> get_prop e' ''description'' = Inr t
        \<and> (\<forall>k. k \<noteq> ''polishedDescription'' \<and> k \<noteq> ''description'' \<longrightarrow>
              get_prop e' k = get_prop e k)))
   \<and> (truthy t \<and> list_all (\<lambda>e. \<not> nullish e) (experience (resumeData st))
        \<and> list_ex (has_id eid) (experience (resumeData st)) \<longrightarrow>
      (\<exists>e e'. find (has_id eid) (experience (resumeData st)) = Some e
        \<and> handlePolish reply now ''experience'' eid st =
          Inr (st\<lparr>resumeData := (resumeData st)\<lparr>experience :=
                     replace_entry eid e' (experience (resumeData st))\<rparr>,
                  submitTrigger := Some \<lparr>trigSection = ''experience'', trigEntryId = eid,
                    trigChangeType = ''update'', timestamp = now\<rparr>,
                  isPolishing := None\<rparr>)
        \<and> get_prop e' ''polishedDescription'' = Inr t \<and> get_prop e' ''description'' = Inr t
        \<and> (\<forall>k. k \<noteq> ''polishedDescription'' \<and> k \<noteq> ''description'' \<longrightarrow>
              get_prop e' k = get_prop e k)))
   \<and> (truthy (coalesce (opt_prop normalized ''content'') t)
        \<and> list_all (\<lambda>e. \<not> nullish e) (customSections (resumeData st))
        \<and> list_ex (has_id eid) (customSections (resumeData st)) \<longrightarrow>
      (\<exists>e e'. find (has_id eid) (customSections (resumeData st)) = Some e
        \<and> handlePolish reply now ''customSections'' eid st =
          Inr (st\<lparr>resumeData := (resumeData st)\<lparr>customSections :=
                     replace_entry eid e' (customSections (resumeData st))\<rparr>,
                  submitTrigger := Some \<lparr>trigSection = ''customSections'', trigEntryId = eid,
                    trigChangeType = ''update'', timestamp = now\<rparr>,
                  isPolishing := None\<rparr>)
        \<and> get_prop e' ''content'' = Inr (coalesce (opt_prop normalized ''content'') t)
        \<and> (\<forall>k. k \<noteq> ''content'' \<longrightarrow> get_prop e' k = get_prop e k)))"
  by (intro conjI impI; elim conjE)
    (rule handlePolish_aboutMe[OF assms] handlePolish_education[OF assms]
      handlePolish_experience[OF assms] handlePolish_customSections[OF assms]; assumption)+

theorem handlePolish_sets_improved_text_witness:
  "(\<exists>a. handlePolish (Resolved \<lparr>status = 200, bodyText = [], bodyJson = Some (JObj
          [(''success'', JBool True), (''content'', JObj [(''polishedDescription'', JStr ''Engineer.'')])])\<rparr>)
        7 ''aboutMe'' ''about''
        \<lparr>resumeData = initialData, isPolishing = Some ''about'', submitTrigger = None, consoleErrors = []\<rparr>
      = Inr \<lparr>resumeData = initialData\<lparr>aboutMe := a\<rparr>, isPolishing = None,
          submitTrigger = Some \<lparr>trigSection = ''aboutMe'', trigEntryId = ''about'',
            trigChangeType = ''update'', timestamp = 7\<rparr>, consoleErrors = []\<rparr>
      \<and> get_prop a ''polishedDescription'' = Inr (JStr ''Engineer.'')
      \<and> get_prop a ''description'' = Inr (JStr ''Engineer.''))
   \<and> (\<exists>e'. handlePolish (Resolved \<lparr>status = 200, bodyText = [], bodyJson = Some (JObj
          [(''success'', JBool True), (''content'', JObj [(''polishedDescription'', JStr ''Engineer.'')])])\<rparr>)
        7 ''customSections'' ''17''
        \<lparr>resumeData = initialData\<lparr>customSections := [JObj [(''id'', JStr ''17''), (''content'', JStr ''x'')]]\<rparr>,
          isPolishing = Some ''17'', submitTrigger = None, consoleErrors = []\<rparr>
      = Inr \<lparr>resumeData = initialData\<lparr>customSections := [e']\<rparr>, isPolishing = None,
          submitTrigger = Some \<lparr>trigSection = ''customSections'', trigEntryId = ''17'',
            trigChangeType = ''update'', timestamp = 7\<rparr>, consoleErrors = []\<rparr>
      \<and> get_prop e' ''content'' = Inr (JStr ''Engineer.'')
      \<and> get_prop e' ''polishedDescription'' = Inr JUndefined)"
proof -
  let ?r = "Resolved \<lparr>status = 200, bodyText = [], bodyJson = Some (JObj
          [(''success'', JBool True), (''content'', JObj [(''polishedDescription'', JStr ''Engineer.'')])])\<rparr>"
  let ?st = "\<lparr>resumeData = initialData, isPolishing = Some ''about'', submitTrigger = None,
      consoleErrors = []\<rparr>"
  let ?st' = "\<lparr>resumeData = initialData\<lparr>customSections :=
        [JObj [(''id'', JStr ''17''), (''content'', JStr ''x'')]]\<rparr>,
      isPolishing = Some ''17'', submitTrigger = None, consoleErrors = []\<rparr>"
  have r: "polishReply ?r = Inr (JObj [(''polishedDescription'', JStr ''Engineer.'')], JStr ''Engineer.'')"
    by (simp add: polishReply_def ok_def json_def bindE_def normalizePayload_def
        getImprovedText_def coalesce_def nullish_def opt_prop_def)
  have about: "aboutMe (resumeData ?st) = JObj [(''description'', JStr ''''), (''polishedDescription'', JStr '''')]"
    by (simp add: initialData_def)
  from handlePolish_sets_improved_text [OF r, THEN conjunct1, rule_format,
      of ?st "[(''description'', JStr ''''), (''polishedDescription'', JStr '''')]" 7 "''about''"] about
  have a: "\<exists>a. handlePolish ?r 7 ''aboutMe'' ''about'' ?st
      = Inr \<lparr>resumeData = initialData\<lparr>aboutMe := a\<rparr>, isPolishing = None,
          submitTrigger = Some \<lparr>trigSection = ''aboutMe'', trigEntryId = ''about'',
            trigChangeType = ''update'', timestamp = 7\<rparr>, consoleErrors = []\<rparr>
      \<and> get_prop a ''polishedDescription'' = Inr (JStr ''Engineer.'')
      \<and> get_prop a ''description'' = Inr (JStr ''Engineer.'')"
    by auto
  have c: "truthy (coalesce (opt_prop (JObj [(''polishedDescription'', JStr ''Engineer.'')]) ''content'')
        (JStr ''Engineer.''))
      \<and> list_all (\<lambda>e. \<not> nullish e) (customSections (resumeData ?st'))
      \<and> list_ex (has_id ''17'') (customSections (resumeData ?st'))"
    by (simp add: coalesce_def opt_prop_def nullish_def)
  from handlePolish_sets_improved_text [OF r, THEN conjunct2, THEN conjunct2, THEN conjunct2,
      rule_format, OF c, of 7]
  obtain e e' where e:
    "find (has_id ''17'') (customSections (resumeData ?st')) = Some e"
    "handlePolish ?r 7 ''customSections'' ''17'' ?st' =
       Inr (?st'\<lparr>resumeData := (resumeData ?st')\<lparr>customSections :=
                     replace_entry ''17'' e' (customSections (resumeData ?st'))\<rparr>,
                  submitTrigger := Some \<lparr>trigSection = ''customSections'', trigEntryId = ''17'',
                    trigChangeType = ''update'', timestamp = 7\<rparr>,
                  isPolishing := None\<rparr>)"
    "get_prop e' ''content'' = Inr (coalesce (opt_prop (JObj [(''polishedDescription'', JStr ''Engineer.'')]) ''content'')
        (JStr ''Engineer.''))"
    "\<forall>k. k \<noteq> ''content'' \<longrightarrow> get_prop e' k = get_prop e k"
    by blast
  from e(1) have e0: "e = JObj [(''id'', JStr ''17''), (''content'', JStr ''x'')]" by simp
  from e(4) e0 have "get_prop e' ''polishedDescription'' = Inr JUndefined" by simp
  moreover from e(3) have "get_prop e' ''content'' = Inr (JStr ''Engineer.'')"
    by (simp add: coalesce_def opt_prop_def nullish_def)
  moreover from e(2) have "handlePolish ?r 7 ''customSections'' ''17'' ?st'
      = Inr \<lparr>resumeData = initialData\<lparr>customSections := [e']\<rparr>, isPolishing = None,
          submitTrigger = Some \<lparr>trigSection = ''customSections'', trigEntryId = ''17'',
            trigChangeType = ''update'', timestamp = 7\<rparr>, consoleErrors = []\<rparr>"
    by (simp add: initialData_def)
  ultimately have b: "\<exists>e'. handlePolish ?r 7 ''customSections'' ''17'' ?st'
      = Inr \<lparr>resumeData = initialData\<lparr>customSections := [e']\<rparr>, isPolishing = None,
          submitTrigger = Some \<lparr>trigSection = ''customSections'', trigEntryId = ''17'',
            trigChangeType = ''update'', timestamp = 7\<rparr>, consoleErrors = []\<rparr>
      \<and> get_prop e' ''content'' = Inr (JStr ''Engineer.'')
      \<and> get_prop e' ''polishedDescription'' = Inr JUndefined"
    by blast
  from a b show ?thesis by (rule conjI)
qed

section \<open>Properties of the preview\<close>

text \<open>The definitions unfolded to run the component on a concrete session.\<close>

lemmas preview_eval = fire_def onSubmitUpdate_def updateLatexSection_def initializeLatex_def
  scrapeTemplate_def fetch_def latexReply_def scrapeReply_def hasData_def json_def ok_def
  bindE_def errorOr_def initialData_def initialPreview_def sectionDataOf_def Let_def

lemma scrapeTemplate_cached: "isTemplateScraped snap \<Longrightarrow> scrapeTemplate srv snap st = st"
  by (simp add: scrapeTemplate_def)

lemma scrapeTemplate_fetches:
  "\<not> isTemplateScraped snap \<Longrightarrow>
     scrapeTemplate srv snap st =
       (case scrapeReply (srv (requests st) TemplateScrape) of
          Inr u \<Rightarrow> st\<lparr>isTemplateScraped := True, isScrapingTemplate := False,
                     requests := requests st @ [TemplateScrape]\<rparr>
        | Inl e \<Rightarrow> st\<lparr>error := Some e, isScrapingTemplate := False,
                     requests := requests st @ [TemplateScrape]\<rparr>)"
  by (simp add: scrapeTemplate_def fetch_def split: sum.splits)

lemma scrapeTemplate_isInitialized [simp]:
  "isInitialized (scrapeTemplate srv snap st) = isInitialized st"
  by (simp add: scrapeTemplate_def fetch_def split: sum.splits)

lemma initializeLatex_skips:
  "\<not> isTemplateScraped snap \<Longrightarrow> snd (initializeLatex srv data snap st) = st"
  by (simp add: initializeLatex_def split: sum.splits)

lemma initializeLatex_cached:
  assumes "isTemplateScraped snap" "isTemplateScraped st"
  shows "isTemplateScraped (snd (initializeLatex srv data snap st))
     \<and> filter (\<lambda>r. r = TemplateScrape) (requests (snd (initializeLatex srv data snap st)))
         = filter (\<lambda>r. r = TemplateScrape) (requests st)"
  using assms
  by (simp add: initializeLatex_def scrapeTemplate_cached fetch_def split: sum.splits)

lemma updateLatexSection_cached:
  assumes "isTemplateScraped snap" "isTemplateScraped st"
  shows "isTemplateScraped (snd (updateLatexSection srv data t snap st))
     \<and> filter (\<lambda>r. r = TemplateScrape) (requests (snd (updateLatexSection srv data t snap st)))
         = filter (\<lambda>r. r = TemplateScrape) (requests st)"
proof (cases "isInitialized st")
  case False
  with assms initializeLatex_cached[OF assms, of srv data] show ?thesis
    by (simp add: updateLatexSection_def)
next
  case True
  let ?rq = "LatexSection (trigChangeType t) (trigSection t) (sectionDataOf (trigSection t) data)"
  let ?st1 = "st\<lparr>isUpdating := True, error := None, requests := requests st @ [?rq]\<rparr>"
  have st1: "isTemplateScraped ?st1" using assms by simp
  show ?thesis
  proof (cases "latexReply ''No LaTeX code returned from section update'' (srv (requests st) ?rq)")
    case (Inr code)
    with True assms show ?thesis
      by (simp add: updateLatexSection_def fetch_def)
  next
    case (Inl e)
    with True assms initializeLatex_cached[OF assms(1) st1, of srv data] show ?thesis
      by (simp add: updateLatexSection_def fetch_def case_prod_beta)
  qed
qed

lemma fire_cached:
  assumes "isTemplateScraped st"
  shows "isTemplateScraped (fire srv de st)
     \<and> filter (\<lambda>r. r = TemplateScrape) (requests (fire srv de st))
         = filter (\<lambda>r. r = TemplateScrape) (requests st)"
proof (cases de)
  case (Pair data ev)
  show ?thesis
  proof (cases ev)
    case (Submit t)
    with Pair initializeLatex_cached[OF assms assms, of srv data]
      updateLatexSection_cached[OF assms assms, of srv data t]
    show ?thesis by (simp add: fire_def onSubmitUpdate_def)
  next
    case ClickScrapeTemplate
    with Pair assms show ?thesis by (simp add: fire_def scrapeTemplate_cached)
  next
    case ClickRegenerate
    with Pair initializeLatex_cached[OF assms assms, of srv data] show ?thesis
      by (simp add: fire_def)
  qed
qed

lemma session_cached:
  "isTemplateScraped st \<Longrightarrow>
     isTemplateScraped (session srv des st)
     \<and> filter (\<lambda>r. r = TemplateScrape) (requests (session srv des st))
         = filter (\<lambda>r. r = TemplateScrape) (requests st)"
proof (induction des arbitrary: st)
  case Nil
  then show ?case by simp
next
  case (Cons de des)
  from fire_cached[OF Cons.prems, of srv de] Cons.IH[of "fire srv de st"]
  show ?case by simp
qed

lemma scrapeTemplate_after_success:
  assumes "\<not> isTemplateScraped st"
    and "scrapeReply (srv (requests st) TemplateScrape) = Inr ()"
  shows "isTemplateScraped (scrapeTemplate srv st st)
     \<and> requests (scrapeTemplate srv st st) = requests st @ [TemplateScrape]
     \<and> scrapeTemplate srv (scrapeTemplate srv st st) (scrapeTemplate srv st st)
         = scrapeTemplate srv st st
     \<and> isTemplateScraped (session srv des (scrapeTemplate srv st st))
     \<and> filter (\<lambda>r. r = TemplateScrape) (requests (session srv des (scrapeTemplate srv st st)))
         = filter (\<lambda>r. r = TemplateScrape) (requests st) @ [TemplateScrape]"
proof -
  let ?s1 = "scrapeTemplate srv st st"
  from assms have s1: "?s1 = st\<lparr>isTemplateScraped := True, isScrapingTemplate := False,
                     requests := requests st @ [TemplateScrape]\<rparr>"
    by (simp add: scrapeTemplate_fetches)
  then have a: "isTemplateScraped ?s1" and b: "requests ?s1 = requests st @ [TemplateScrape]"
    by simp_all
  from a have c: "scrapeTemplate srv ?s1 ?s1 = ?s1" by (rule scrapeTemplate_cached)
  from session_cached[OF a, of srv des] b
  have d: "isTemplateScraped (session srv des ?s1)"
    and e: "filter (\<lambda>r. r = TemplateScrape) (requests (session srv des ?s1))
         = filter (\<lambda>r. r = TemplateScrape) (requests st) @ [TemplateScrape]"
    by simp_all
  from a b c d e show ?thesis by blast
qed

text \<open>
  Claim C7, as amended. A call of scrapeTemplate by a render that has seen the template
  acquired returns at once and changes nothing; a call by a render that has not sends
  the acquisition request, exactly once. When the first call is answered with success,
  the template is recorded as acquired, the next render's call does not fetch, and in the
  rest of the session, whatever events of the preview follow one after the other, the
  template stays acquired and no acquisition request is sent again. When the first call
  fails, the template stays unacquired and the error is shown, so that the next call
  fetches again.
\<close>

theorem scrapeTemplate_fetches_until_success_is_seen:
  "(isTemplateScraped snap \<longrightarrow> scrapeTemplate srv snap st = st)
   \<and> (\<not> isTemplateScraped snap \<longrightarrow>
        requests (scrapeTemplate srv snap st) = requests st @ [TemplateScrape])
   \<and> (\<not> isTemplateScraped st \<and> scrapeReply (srv (requests st) TemplateScrape) = Inr () \<longrightarrow>
        isTemplateScraped (scrapeTemplate srv st st)
        \<and> scrapeTemplate srv (scrapeTemplate srv st st) (scrapeTemplate srv st st)
            = scrapeTemplate srv st st
        \<and> isTemplateScraped (session srv des (scrapeTemplate srv st st))
        \<and> filter (\<lambda>r. r = TemplateScrape) (requests (session srv des (scrapeTemplate srv st st)))
            = filter (\<lambda>r. r = TemplateScrape) (requests st) @ [TemplateScrape])
   \<and> (\<not> isTemplateScraped st \<and> scrapeReply (srv (requests st) TemplateScrape) = Inl e \<longrightarrow>
        \<not> isTemplateScraped (scrapeTemplate srv st st)
        \<and> error (scrapeTemplate srv st st) = Some e)"
proof -
  have a: "isTemplateScraped snap \<longrightarrow> scrapeTemplate srv snap st = st"
    by (simp add: scrapeTemplate_cached)
  have b: "\<not> isTemplateScraped snap \<longrightarrow>
        requests (scrapeTemplate srv snap st) = requests st @ [TemplateScrape]"
    by (simp add: scrapeTemplate_fetches split: sum.splits)
  have c: "\<not> isTemplateScraped st \<and> scrapeReply (srv (requests st) TemplateScrape) = Inr () \<longrightarrow>
        isTemplateScraped (scrapeTemplate srv st st)
        \<and> scrapeTemplate srv (scrapeTemplate srv st st) (scrapeTemplate srv st st)
            = scrapeTemplate srv st st
        \<and> isTemplateScraped (session srv des (scrapeTemplate srv st st))
        \<and> filter (\<lambda>r. r = TemplateScrape) (requests (session srv des (scrapeTemplate srv st st)))
            = filter (\<lambda>r. r = TemplateScrape) (requests st) @ [TemplateScrape]"
    using scrapeTemplate_after_success[of st srv des] by blast
  have d: "\<not> isTemplateScraped st \<and> scrapeReply (srv (requests st) TemplateScrape) = Inl e \<longrightarrow>
        \<not> isTemplateScraped (scrapeTemplate srv st st)
        \<and> error (scrapeTemplate srv st st) = Some e"
    by (simp add: scrapeTemplate_fetches)
  from a b c d show ?thesis by (intro conjI)
qed

theorem scrapeTemplate_fetches_until_success_is_seen_witness:
  "scrapeTemplate
      (\<lambda>h r. Resolved \<lparr>status = 200, bodyText = [], bodyJson = Some (JObj [(''success'', JBool True)])\<rparr>)
      (initialPreview\<lparr>isTemplateScraped := True\<rparr>) (initialPreview\<lparr>isTemplateScraped := True\<rparr>)
     = initialPreview\<lparr>isTemplateScraped := True\<rparr>
   \<and> isTemplateScraped (scrapeTemplate
      (\<lambda>h r. Resolved \<lparr>status = 200, bodyText = [], bodyJson = Some (JObj [(''success'', JBool True)])\<rparr>)
      initialPreview initialPreview)
   \<and> filter (\<lambda>r. r = TemplateScrape) (requests (session
      (\<lambda>h r. Resolved \<lparr>status = 200, bodyText = [], bodyJson = Some (JObj [(''success'', JBool True)])\<rparr>)
      [(initialData, ClickScrapeTemplate),
       (initialData, Submit \<lparr>trigSection = ''skills'', trigEntryId = ''skills'',
           trigChangeType = ''update'', timestamp = 1\<rparr>)]
      (scrapeTemplate
        (\<lambda>h r. Resolved \<lparr>status = 200, bodyText = [], bodyJson = Some (JObj [(''success'', JBool True)])\<rparr>)
        initialPreview initialPreview)))
     = [TemplateScrape]
   \<and> error (scrapeTemplate (\<lambda>h r. Rejected) initialPreview initialPreview) = Some FetchRejected
   \<and> requests (scrapeTemplate (\<lambda>h r. Rejected)
        (scrapeTemplate (\<lambda>h r. Rejected) initialPreview initialPreview)
        (scrapeTemplate (\<lambda>h r. Rejected) initialPreview initialPreview))
     = [TemplateScrape, TemplateScrape]"
proof -
  let ?ok = "\<lambda>(h :: request list) (r :: request).
     Resolved \<lparr>status = 200, bodyText = [], bodyJson = Some (JObj [(''success'', JBool True)])\<rparr>"
  let ?no = "\<lambda>(h :: request list) (r :: request). Rejected"
  let ?des = "[(initialData, ClickScrapeTemplate),
       (initialData, Submit \<lparr>trigSection = ''skills'', trigEntryId = ''skills'',
           trigChangeType = ''update'', timestamp = 1\<rparr>)]"
  let ?s1 = "scrapeTemplate ?no initialPreview initialPreview"
  have n: "\<not> isTemplateScraped initialPreview" by (simp add: initialPreview_def)
  have y: "isTemplateScraped (initialPreview\<lparr>isTemplateScraped := True\<rparr>)" by simp
  have ok: "scrapeReply (?ok (requests initialPreview) TemplateScrape) = Inr ()"
    by (simp add: scrapeReply_def ok_def json_def bindE_def)
  have no: "scrapeReply (?no (requests initialPreview) TemplateScrape) = Inl FetchRejected"
    by (simp add: scrapeReply_def)
  from scrapeTemplate_fetches_until_success_is_seen
    [THEN conjunct1, rule_format, OF y, of ?ok "initialPreview\<lparr>isTemplateScraped := True\<rparr>"]
  have a: "scrapeTemplate ?ok (initialPreview\<lparr>isTemplateScraped := True\<rparr>)
      (initialPreview\<lparr>isTemplateScraped := True\<rparr>) = initialPreview\<lparr>isTemplateScraped := True\<rparr>" .
  from scrapeTemplate_fetches_until_success_is_seen
    [THEN conjunct2, THEN conjunct2, THEN conjunct1, rule_format, of initialPreview ?ok ?des] n ok
  have c: "isTemplateScraped (scrapeTemplate ?ok initialPreview initialPreview)
     \<and> filter (\<lambda>r. r = TemplateScrape)
         (requests (session ?ok ?des (scrapeTemplate ?ok initialPreview initialPreview)))
       = [TemplateScrape]"
    by (simp add: initialPreview_def)
  from scrapeTemplate_fetches_until_success_is_seen
    [THEN conjunct2, THEN conjunct2, THEN conjunct2, rule_format, of initialPreview ?no FetchRejected] n no
  have d: "\<not> isTemplateScraped ?s1" "error ?s1 = Some FetchRejected"
    by simp_all
  from scrapeTemplate_fetches_until_success_is_seen
    [THEN conjunct2, THEN conjunct1, rule_format, OF n, of ?no initialPreview]
  have r1: "requests ?s1 = [TemplateScrape]" by (simp add: initialPreview_def)
  from scrapeTemplate_fetches_until_success_is_seen
    [THEN conjunct2, THEN conjunct1, rule_format, OF d(1), of ?no ?s1] r1
  have r2: "requests (scrapeTemplate ?no ?s1 ?s1) = [TemplateScrape, TemplateScrape]" by simp
  from a c d(2) r2 show ?thesis by blast
qed

text \<open>
  Claim C7 as stated fails for two calls that overlap. A second submit issued before the
  reply to the first acquisition has arrived runs with the functions of a render in which
  isTemplateScraped is still false: against a server that answers every acquisition with
  success, the two calls send two acquisition requests.
\<close>

theorem scrapeTemplate_overlap_counterexample:
  "isTemplateScraped (scrapeTemplate
      (\<lambda>h r. Resolved \<lparr>status = 200, bodyText = [], bodyJson = Some (JObj [(''success'', JBool True)])\<rparr>)
      initialPreview initialPreview)
   \<and> requests (scrapeTemplate
      (\<lambda>h r. Resolved \<lparr>status = 200, bodyText = [], bodyJson = Some (JObj [(''success'', JBool True)])\<rparr>)
      initialPreview
      (scrapeTemplate
        (\<lambda>h r. Resolved \<lparr>status = 200, bodyText = [], bodyJson = Some (JObj [(''success'', JBool True)])\<rparr>)
        initialPreview initialPreview))
     = [TemplateScrape, TemplateScrape]
   \<and> requests (snd (updateLatexSection
      (\<lambda>h r. Resolved \<lparr>status = 200, bodyText = [], bodyJson = Some (JObj [(''success'', JBool True)])\<rparr>)
      initialData
      \<lparr>trigSection = ''skills'', trigEntryId = ''skills'', trigChangeType = ''update'',
        timestamp = 2\<rparr>
      initialPreview
      (snd (updateLatexSection
        (\<lambda>h r. Resolved \<lparr>status = 200, bodyText = [], bodyJson = Some (JObj [(''success'', JBool True)])\<rparr>)
        initialData
        \<lparr>trigSection = ''education'', trigEntryId = ''education'', trigChangeType = ''update'',
          timestamp = 1\<rparr>
        initialPreview initialPreview))))
     = [TemplateScrape, TemplateScrape]"
  by (simp add: preview_eval)

lemma acquiredAt_append: "acquiredAt srv log j \<Longrightarrow> acquiredAt srv (log @ xs) j"
  by (simp add: acquiredAt_def nth_append)

lemma acquiredAt_new:
  "scrapeReply (srv log TemplateScrape) = Inr () \<Longrightarrow> acquiredAt srv (log @ [TemplateScrape]) (length log)"
  by (simp add: acquiredAt_def)

lemma acquiredAt_less: "acquiredAt srv log j \<Longrightarrow> j < length log"
  by (simp add: acquiredAt_def)

lemma generations_append:
  assumes "generationsAfterAcquisition srv log"
    and "isGeneration r \<Longrightarrow> \<exists>j. acquiredAt srv log j"
  shows "generationsAfterAcquisition srv (log @ [r])"
  unfolding generationsAfterAcquisition_def
proof (intro allI impI)
  fix i
  assume i: "i < length (log @ [r])" and g: "isGeneration ((log @ [r]) ! i)"
  show "\<exists>j<i. acquiredAt srv (log @ [r]) j"
  proof (cases "i < length log")
    case True
    with g assms(1) obtain j where "j < i" "acquiredAt srv log j"
      by (auto simp: generationsAfterAcquisition_def nth_append)
    then show ?thesis using acquiredAt_append by blast
  next
    case False
    with i have il: "i = length log" by simp
    with g have "isGeneration r" by simp
    with assms(2) obtain j where j: "acquiredAt srv log j" by blast
    with il acquiredAt_less[OF j] acquiredAt_append[OF j] show ?thesis by blast
  qed
qed

lemma previewInv_request:
  assumes "previewInv srv st" "isGeneration r \<Longrightarrow> isTemplateScraped st"
  shows "previewInv srv (st\<lparr>requests := requests st @ [r]\<rparr>)"
proof -
  have g: "generationsAfterAcquisition srv (requests st @ [r])"
    using assms by (intro generations_append) (auto simp: previewInv_def)
  have a: "isTemplateScraped st \<longrightarrow> (\<exists>j. acquiredAt srv (requests st @ [r]) j)"
    using assms(1) acquiredAt_append unfolding previewInv_def by blast
  from assms(1) g a show ?thesis by (simp add: previewInv_def)
qed

lemma previewInv_cong:
  "isInitialized st' = isInitialized st \<Longrightarrow> isTemplateScraped st' = isTemplateScraped st \<Longrightarrow>
     requests st' = requests st \<Longrightarrow> previewInv srv st' = previewInv srv st"
  by (simp add: previewInv_def)

lemma previewInv_scrape:
  assumes "previewInv srv st"
  shows "previewInv srv (scrapeTemplate srv snap st)"
proof (cases "isTemplateScraped snap")
  case True
  with assms show ?thesis by (simp add: scrapeTemplate_cached)
next
  case False
  have r: "previewInv srv (st\<lparr>requests := requests st @ [TemplateScrape]\<rparr>)"
    using assms by (intro previewInv_request) simp_all
  show ?thesis
  proof (cases "scrapeReply (srv (requests st) TemplateScrape)")
    case (Inl e)
    have "previewInv srv (st\<lparr>error := Some e, isScrapingTemplate := False,
        requests := requests st @ [TemplateScrape]\<rparr>)
      = previewInv srv (st\<lparr>requests := requests st @ [TemplateScrape]\<rparr>)"
      by (rule previewInv_cong) simp_all
    with False r Inl show ?thesis by (simp add: scrapeTemplate_fetches)
  next
    case (Inr u)
    then have "acquiredAt srv (requests st @ [TemplateScrape]) (length (requests st))"
      by (simp add: acquiredAt_new)
    with r have "previewInv srv (st\<lparr>isTemplateScraped := True, isScrapingTemplate := False,
        requests := requests st @ [TemplateScrape]\<rparr>)"
      unfolding previewInv_def by auto
    with False Inr show ?thesis by (simp add: scrapeTemplate_fetches)
  qed
qed

lemma previewInv_initialize:
  assumes "previewInv srv st" "isTemplateScraped snap \<Longrightarrow> isTemplateScraped st"
  shows "previewInv srv (snd (initializeLatex srv data snap st))"
proof (cases "hasData data = Inr True \<and> isTemplateScraped snap")
  case False
  with assms(1) show ?thesis
    by (auto simp: initializeLatex_def split: sum.splits)
next
  case True
  let ?rq = "LatexHeader (name data) (contact data)"
  let ?st1 = "st\<lparr>isUpdating := True, error := None, requests := requests st @ [?rq]\<rparr>"
  from True assms(2) have sc: "isTemplateScraped st" by simp
  with assms(1) have r: "previewInv srv (st\<lparr>requests := requests st @ [?rq]\<rparr>)"
    by (intro previewInv_request) simp_all
  have st1: "snd (initializeLatex srv data snap st) =
      (case latexReply ''No LaTeX code returned from header update'' (srv (requests st) ?rq) of
         Inr code \<Rightarrow> ?st1\<lparr>latexCode := code, isInitialized := True,
                               hasGeneratedPreview := True, isUpdating := False\<rparr>
       | Inl e \<Rightarrow> ?st1\<lparr>error := Some e, isUpdating := False\<rparr>)"
    using True by (simp add: initializeLatex_def scrapeTemplate_cached fetch_def split: sum.splits)
  show ?thesis
  proof (cases "latexReply ''No LaTeX code returned from header update'' (srv (requests st) ?rq)")
    case (Inl e)
    have "previewInv srv (?st1\<lparr>error := Some e, isUpdating := False\<rparr>)
        = previewInv srv (st\<lparr>requests := requests st @ [?rq]\<rparr>)"
      by (rule previewInv_cong) simp_all
    with r st1 Inl show ?thesis by simp
  next
    case (Inr code)
    from r sc have "previewInv srv (?st1\<lparr>latexCode := code, isInitialized := True,
                               hasGeneratedPreview := True, isUpdating := False\<rparr>)"
      unfolding previewInv_def by simp
    with st1 Inr show ?thesis by simp
  qed
qed

lemma previewInv_update:
  assumes "previewInv srv st" "isTemplateScraped snap \<Longrightarrow> isTemplateScraped st"
  shows "previewInv srv (snd (updateLatexSection srv data t snap st))"
proof -
  let ?st0 = "if \<not> isTemplateScraped snap then scrapeTemplate srv snap st else st"
  have inv0: "previewInv srv ?st0" using assms(1) previewInv_scrape by simp
  have sc0: "isTemplateScraped snap \<Longrightarrow> isTemplateScraped ?st0" using assms(2) by simp
  show ?thesis
  proof (cases "isInitialized ?st0")
    case False
    with previewInv_initialize[OF inv0 sc0, where data = data] show ?thesis
      by (simp add: updateLatexSection_def Let_def)
  next
    case True
    let ?rq = "LatexSection (trigChangeType t) (trigSection t) (sectionDataOf (trigSection t) data)"
    let ?st1 = "?st0\<lparr>isUpdating := True, error := None, requests := requests ?st0 @ [?rq]\<rparr>"
    from True inv0 have s0: "isTemplateScraped ?st0" by (simp add: previewInv_def)
    with inv0 have "previewInv srv (?st0\<lparr>requests := requests ?st0 @ [?rq]\<rparr>)"
      by (intro previewInv_request)
    moreover have "previewInv srv ?st1 = previewInv srv (?st0\<lparr>requests := requests ?st0 @ [?rq]\<rparr>)"
      by (rule previewInv_cong) simp_all
    ultimately have inv1: "previewInv srv ?st1" by simp
    from s0 have s1: "isTemplateScraped snap \<Longrightarrow> isTemplateScraped ?st1" by simp
    show ?thesis
    proof (cases "latexReply ''No LaTeX code returned from section update'' (srv (requests ?st0) ?rq)")
      case (Inr code)
      have "previewInv srv (?st1\<lparr>latexCode := code, updates := updates ?st1 + 1, isUpdating := False\<rparr>)
          = previewInv srv ?st1"
        by (rule previewInv_cong) simp_all
      with True inv1 Inr show ?thesis
        by (simp add: updateLatexSection_def fetch_def Let_def)
    next
      case (Inl e)
      have "previewInv srv ((snd (initializeLatex srv data snap ?st1))\<lparr>isUpdating := False\<rparr>)
          = previewInv srv (snd (initializeLatex srv data snap ?st1))"
        by (rule previewInv_cong) simp_all
      with True Inl previewInv_initialize[OF inv1 s1, where data = data] show ?thesis
        by (simp add: updateLatexSection_def fetch_def Let_def case_prod_beta)
    qed
  qed
qed

lemma previewInv_fire: "previewInv srv st \<Longrightarrow> previewInv srv (fire srv de st)"
proof -
  assume inv: "previewInv srv st"
  obtain data ev where de: "de = (data, ev)" by (cases de)
  show ?thesis
  proof (cases ev)
    case (Submit t)
    with de previewInv_initialize[OF inv, where snap = st and data = data] previewInv_update[OF inv, where snap = st and data = data and t = t]
    show ?thesis by (simp add: fire_def onSubmitUpdate_def)
  next
    case ClickScrapeTemplate
    with de previewInv_scrape[OF inv] show ?thesis by (simp add: fire_def)
  next
    case ClickRegenerate
    with de previewInv_initialize[OF inv, where snap = st and data = data] show ?thesis by (simp add: fire_def)
  qed
qed

lemma previewInv_session: "previewInv srv st \<Longrightarrow> previewInv srv (session srv des st)"
  by (induction des arbitrary: st) (simp_all add: previewInv_fire)

lemma previewInv_initial: "previewInv srv initialPreview"
  by (simp add: previewInv_def initialPreview_def generationsAfterAcquisition_def)

lemma updateLatexSection_acquires_first:
  assumes "\<not> isTemplateScraped st"
  shows "\<exists>rest. requests (snd (updateLatexSection srv data t st st))
           = requests st @ TemplateScrape # rest"
proof -
  let ?st0 = "scrapeTemplate srv st st"
  have r0: "requests ?st0 = requests st @ [TemplateScrape]"
    using assms by (simp add: scrapeTemplate_fetches split: sum.splits)
  show ?thesis
  proof (cases "isInitialized st")
    case False
    with assms r0 show ?thesis
      by (simp add: updateLatexSection_def Let_def initializeLatex_skips)
  next
    case True
    let ?rq = "LatexSection (trigChangeType t) (trigSection t) (sectionDataOf (trigSection t) data)"
    show ?thesis
    proof (cases "latexReply ''No LaTeX code returned from section update'' (srv (requests ?st0) ?rq)")
      case (Inr code)
      with True assms r0 show ?thesis
        by (simp add: updateLatexSection_def fetch_def Let_def)
    next
      case (Inl e)
      with True assms r0 show ?thesis
        by (simp add: updateLatexSection_def fetch_def Let_def case_prod_beta initializeLatex_skips)
    qed
  qed
qed

text \<open>
  Claim C8, as amended. While the template is not recorded as acquired, a header
  generation call returns without sending any request and without changing the state
  (it does not acquire the template), and a section-scope call sends the acquisition
  request first. In every session that starts in the initial state, each generation
  request in the log comes after an acquisition request that the server answered with
  success.
\<close>

theorem generation_waits_for_template:
  "(\<not> isTemplateScraped st \<longrightarrow> snd (initializeLatex srv data st st) = st)
   \<and> (\<not> isTemplateScraped st \<longrightarrow>
        (\<exists>rest. requests (snd (updateLatexSection srv data t st st))
           = requests st @ TemplateScrape # rest))
   \<and> generationsAfterAcquisition srv (requests (session srv des initialPreview))"
proof -
  have "previewInv srv (session srv des initialPreview)"
    by (rule previewInv_session) (rule previewInv_initial)
  then have "generationsAfterAcquisition srv (requests (session srv des initialPreview))"
    by (simp add: previewInv_def)
  then show ?thesis
    using initializeLatex_skips updateLatexSection_acquires_first by blast
qed

theorem generation_waits_for_template_witness:
  "snd (initializeLatex
      (\<lambda>h r. Resolved \<lparr>status = 200, bodyText = [], bodyJson = Some (JObj
          [(''success'', JBool True), (''latexCode'', JStr ''doc'')])\<rparr>)
      (initialData\<lparr>name := JObj [(''firstName'', JStr ''Ada''), (''lastName'', JStr [])]\<rparr>)
      initialPreview initialPreview) = initialPreview
   \<and> (\<exists>rest. requests (snd (updateLatexSection
      (\<lambda>h r. Resolved \<lparr>status = 200, bodyText = [], bodyJson = Some (JObj
          [(''success'', JBool True), (''latexCode'', JStr ''doc'')])\<rparr>)
      (initialData\<lparr>name := JObj [(''firstName'', JStr ''Ada''), (''lastName'', JStr [])]\<rparr>)
      \<lparr>trigSection = ''skills'', trigEntryId = ''skills'', trigChangeType = ''update'',
        timestamp = 1\<rparr> initialPreview initialPreview)) = TemplateScrape # rest)
   \<and> generationsAfterAcquisition
      (\<lambda>h r. Resolved \<lparr>status = 200, bodyText = [], bodyJson = Some (JObj
          [(''success'', JBool True), (''latexCode'', JStr ''doc'')])\<rparr>)
      [TemplateScrape, LatexHeader (JObj [(''firstName'', JStr ''Ada''), (''lastName'', JStr [])]) []]"
proof -
  let ?srv = "\<lambda>(h :: request list) (r :: request).
      Resolved \<lparr>status = 200, bodyText = [], bodyJson = Some (JObj
          [(''success'', JBool True), (''latexCode'', JStr ''doc'')])\<rparr>"
  let ?d = "initialData\<lparr>name := JObj [(''firstName'', JStr ''Ada''), (''lastName'', JStr [])]\<rparr>"
  let ?t = "\<lparr>trigSection = ''skills'', trigEntryId = ''skills'', trigChangeType = ''update'',
        timestamp = 1\<rparr>"
  let ?des = "[(?d, ClickScrapeTemplate),
      (?d, Submit \<lparr>trigSection = ''header'', trigEntryId = ''header_bundle'',
         trigChangeType = ''update'', timestamp = 2\<rparr>)]"
  have a: "\<not> isTemplateScraped initialPreview" by (simp add: initialPreview_def)
  have s: "requests (session ?srv ?des initialPreview)
      = [TemplateScrape, LatexHeader (JObj [(''firstName'', JStr ''Ada''), (''lastName'', JStr [])]) []]"
    by (simp add: preview_eval)
  from generation_waits_for_template [of initialPreview ?srv ?d ?t ?des] a s
  show ?thesis by (simp add: initialPreview_def)
qed

text \<open>
  Claim C8 as stated fails for the header scope: with a document that has data and a
  server ready to answer, a header call made before the template is acquired sends no
  request at all, the acquisition included.
\<close>

theorem header_without_template_counterexample:
  "hasData (initialData\<lparr>name := JObj [(''firstName'', JStr ''Ada''), (''lastName'', JStr '''')]\<rparr>)
     = Inr True
   \<and> initializeLatex
       (\<lambda>h r. Resolved \<lparr>status = 200, bodyText = [], bodyJson = Some (JObj
          [(''success'', JBool True), (''latexCode'', JStr ''doc'')])\<rparr>)
       (initialData\<lparr>name := JObj [(''firstName'', JStr ''Ada''), (''lastName'', JStr '''')]\<rparr>)
       initialPreview initialPreview
     = (None, initialPreview)
   \<and> requests initialPreview = []"
  by (simp add: initializeLatex_def hasData_def initialData_def initialPreview_def bindE_def)

lemma updateLatexSection_uninitialized:
  assumes "\<not> isInitialized st"
  shows "filter isSectionGeneration (requests (snd (updateLatexSection srv data t st st)))
           = filter isSectionGeneration (requests st)"
    and "isTemplateScraped st \<Longrightarrow> hasData data = Inr True \<Longrightarrow>
         requests (snd (updateLatexSection srv data t st st))
           = requests st @ [LatexHeader (name data) (contact data)]"
proof -
  show "filter isSectionGeneration (requests (snd (updateLatexSection srv data t st st)))
           = filter isSectionGeneration (requests st)"
  proof (cases "isTemplateScraped st")
    case False
    with assms show ?thesis
      by (simp add: updateLatexSection_def initializeLatex_skips scrapeTemplate_fetches
          split: sum.splits)
  next
    case True
    with assms show ?thesis
      by (simp add: updateLatexSection_def initializeLatex_def scrapeTemplate_cached fetch_def
          split: sum.splits)
  qed
next
  assume "isTemplateScraped st" "hasData data = Inr True"
  with assms show "requests (snd (updateLatexSection srv data t st st))
           = requests st @ [LatexHeader (name data) (contact data)]"
    by (simp add: updateLatexSection_def initializeLatex_def scrapeTemplate_cached fetch_def
        split: sum.splits)
qed

text \<open>
  Claim C2, as amended. A section-scope request that finds the generator not
  initialized never sends a section generation request in that call. When it finds the
  template acquired and the document has data, the call sends exactly one request, the
  header generation.
\<close>

theorem uninitialized_section_request:
  assumes "\<not> isInitialized st"
  shows "filter isSectionGeneration (requests (snd (updateLatexSection srv data t st st)))
           = filter isSectionGeneration (requests st)
     \<and> (isTemplateScraped st \<and> hasData data = Inr True \<longrightarrow>
         requests (snd (updateLatexSection srv data t st st))
           = requests st @ [LatexHeader (name data) (contact data)])"
  using updateLatexSection_uninitialized[OF assms] by blast

theorem uninitialized_section_request_witness:
  "filter isSectionGeneration (requests (snd (updateLatexSection
      (\<lambda>h r. Resolved \<lparr>status = 200, bodyText = [], bodyJson = Some (JObj
          [(''success'', JBool True), (''latexCode'', JStr ''doc'')])\<rparr>)
      (initialData\<lparr>name := JObj [(''firstName'', JStr ''Ada''), (''lastName'', JStr '''')]\<rparr>)
      \<lparr>trigSection = ''skills'', trigEntryId = ''skills'', trigChangeType = ''update'',
        timestamp = 1\<rparr>
      (initialPreview\<lparr>isTemplateScraped := True\<rparr>) (initialPreview\<lparr>isTemplateScraped := True\<rparr>)))) = []
   \<and> requests (snd (updateLatexSection
      (\<lambda>h r. Resolved \<lparr>status = 200, bodyText = [], bodyJson = Some (JObj
          [(''success'', JBool True), (''latexCode'', JStr ''doc'')])\<rparr>)
      (initialData\<lparr>name := JObj [(''firstName'', JStr ''Ada''), (''lastName'', JStr '''')]\<rparr>)
      \<lparr>trigSection = ''skills'', trigEntryId = ''skills'', trigChangeType = ''update'',
        timestamp = 1\<rparr>
      (initialPreview\<lparr>isTemplateScraped := True\<rparr>) (initialPreview\<lparr>isTemplateScraped := True\<rparr>)))
     = [LatexHeader (JObj [(''firstName'', JStr ''Ada''), (''lastName'', JStr '''')]) []]"
proof -
  let ?st = "initialPreview\<lparr>isTemplateScraped := True\<rparr>"
  let ?d = "initialData\<lparr>name := JObj [(''firstName'', JStr ''Ada''), (''lastName'', JStr '''')]\<rparr>"
  have a: "\<not> isInitialized ?st" by (simp add: initialPreview_def)
  have b: "isTemplateScraped ?st \<and> hasData ?d = Inr True"
    by (simp add: hasData_def initialData_def bindE_def)
  from uninitialized_section_request [OF a, of _ ?d] b
  show ?thesis by (simp add: initialPreview_def initialData_def)
qed

text \<open>
  Claim C2 as stated fails on an empty document: after the template is acquired, a
  submit of aboutMe on the initial document sends no generation request, and the
  generator stays uninitialized.
\<close>

theorem uninitialized_section_no_header_counterexample:
  "session
     (\<lambda>h r. Resolved \<lparr>status = 200, bodyText = [], bodyJson = Some (JObj
          [(''success'', JBool True), (''latexCode'', JStr ''doc'')])\<rparr>)
     [(initialData, ClickScrapeTemplate),
      (initialData,
         Submit \<lparr>trigSection = ''aboutMe'', trigEntryId = ''about'',
           trigChangeType = ''update'', timestamp = 1\<rparr>)]
     initialPreview
   = \<lparr>latexCode = JStr [], isUpdating = False, error = None, updates = 0,
       hasGeneratedPreview = False, isTemplateScraped = True, isScrapingTemplate = False,
       isInitialized = False, requests = [TemplateScrape]\<rparr>"
  by (simp add: preview_eval)

lemma session_initialized_scraped:
  "isInitialized (session srv des initialPreview) \<Longrightarrow> isTemplateScraped (session srv des initialPreview)"
  using previewInv_session[OF previewInv_initial, of srv des] by (simp add: previewInv_def)

text \<open>
  Claim C3, as amended. In a state reached by a session in which the generator is
  initialized, when the document has data and the section generation fails (the request
  is rejected, the status is not a success, the body is not JSON, or success or
  latexCode is missing), the call sends the header generation request once after the
  failed section request and settles with isUpdating false; the result shown is the
  header generation's: its LaTeX code and no error when it succeeds, its error and the
  previous LaTeX code when it fails, without another attempt.
\<close>

theorem section_failure_falls_back:
  assumes "st = session srv des initialPreview"
    and "isInitialized st"
    and "hasData data = Inr True"
    and "sreq = LatexSection (trigChangeType t) (trigSection t) (sectionDataOf (trigSection t) data)"
    and "latexReply ''No LaTeX code returned from section update'' (srv (requests st) sreq) = Inl e"
    and "hreq = LatexHeader (name data) (contact data)"
    and "st' = snd (updateLatexSection srv data t st st)"
  shows "requests st' = requests st @ [sreq, hreq]
     \<and> isUpdating st' = False
     \<and> (case latexReply ''No LaTeX code returned from header update''
               (srv (requests st @ [sreq]) hreq) of
          Inr code \<Rightarrow> latexCode st' = code \<and> error st' = None
        | Inl e' \<Rightarrow> latexCode st' = latexCode st \<and> error st' = Some e')"
proof -
  from assms(1,2) have sc: "isTemplateScraped st"
    using session_initialized_scraped by blast
  let ?st1 = "st\<lparr>isUpdating := True, error := None, requests := requests st @ [sreq]\<rparr>"
  from sc assms(2,4,5) have u: "updateLatexSection srv data t st st =
      (case initializeLatex srv data st ?st1 of (x, st2) \<Rightarrow> (x, st2\<lparr>isUpdating := False\<rparr>))"
    by (simp add: updateLatexSection_def fetch_def)
  from sc assms(3,6) have i: "snd (initializeLatex srv data st ?st1) =
      (case latexReply ''No LaTeX code returned from header update''
               (srv (requests st @ [sreq]) hreq) of
         Inr code \<Rightarrow> ?st1\<lparr>requests := requests st @ [sreq, hreq], latexCode := code,
                       isInitialized := True, hasGeneratedPreview := True, isUpdating := False\<rparr>
       | Inl e' \<Rightarrow> ?st1\<lparr>requests := requests st @ [sreq, hreq], error := Some e',
                       isUpdating := False\<rparr>)"
    by (simp add: initializeLatex_def scrapeTemplate_cached fetch_def split: sum.splits)
  from u assms(7) have "st' = (snd (initializeLatex srv data st ?st1))\<lparr>isUpdating := False\<rparr>"
    by (simp add: case_prod_beta)
  with i show ?thesis by (simp split: sum.splits)
qed

theorem section_failure_falls_back_witness:
  "requests (snd (updateLatexSection
      (\<lambda>h r. if isSectionGeneration r
        then Resolved \<lparr>status = 500, bodyText = ''boom'', bodyJson = None\<rparr>
        else Resolved \<lparr>status = 200, bodyText = [], bodyJson = Some (JObj
          [(''success'', JBool True), (''latexCode'', JStr ''doc'')])\<rparr>)
      (initialData\<lparr>skills := [JObj [(''id'', JStr ''skill_1''), (''skill'', JStr ''ML'')]]\<rparr>)
      \<lparr>trigSection = ''skills'', trigEntryId = ''skills'', trigChangeType = ''update'',
        timestamp = 2\<rparr>
      (initialPreview\<lparr>latexCode := JStr ''doc'', hasGeneratedPreview := True,
         isTemplateScraped := True, isInitialized := True,
         requests := [TemplateScrape,
           LatexHeader (JObj [(''firstName'', JStr []), (''lastName'', JStr [])]) []]\<rparr>)
      (initialPreview\<lparr>latexCode := JStr ''doc'', hasGeneratedPreview := True,
         isTemplateScraped := True, isInitialized := True,
         requests := [TemplateScrape,
           LatexHeader (JObj [(''firstName'', JStr []), (''lastName'', JStr [])]) []]\<rparr>)))
    = [TemplateScrape,
       LatexHeader (JObj [(''firstName'', JStr []), (''lastName'', JStr [])]) [],
       LatexSection ''update'' ''skills''
         (SectionEntries [JObj [(''id'', JStr ''skill_1''), (''skill'', JStr ''ML'')]]),
       LatexHeader (JObj [(''firstName'', JStr []), (''lastName'', JStr [])]) []]"
proof -
  let ?srv = "\<lambda>(h :: request list) r. if isSectionGeneration r
        then Resolved \<lparr>status = 500, bodyText = ''boom'', bodyJson = None\<rparr>
        else Resolved \<lparr>status = 200, bodyText = [], bodyJson = Some (JObj
          [(''success'', JBool True), (''latexCode'', JStr ''doc'')])\<rparr>"
  let ?d = "initialData\<lparr>skills := [JObj [(''id'', JStr ''skill_1''), (''skill'', JStr ''ML'')]]\<rparr>"
  let ?des = "[(?d, ClickScrapeTemplate), (?d, Submit \<lparr>trigSection = ''header'',
      trigEntryId = ''header_bundle'', trigChangeType = ''update'', timestamp = 1\<rparr>)]"
  let ?t = "\<lparr>trigSection = ''skills'', trigEntryId = ''skills'', trigChangeType = ''update'',
        timestamp = 2\<rparr>"
  let ?st = "initialPreview\<lparr>latexCode := JStr ''doc'', hasGeneratedPreview := True,
         isTemplateScraped := True, isInitialized := True,
         requests := [TemplateScrape,
           LatexHeader (JObj [(''firstName'', JStr []), (''lastName'', JStr [])]) []]\<rparr>"
  let ?sreq = "LatexSection ''update'' ''skills''
         (SectionEntries [JObj [(''id'', JStr ''skill_1''), (''skill'', JStr ''ML'')]])"
  let ?hreq = "LatexHeader (JObj [(''firstName'', JStr []), (''lastName'', JStr [])]) []"
  have s: "?st = session ?srv ?des initialPreview"
    by (simp add: preview_eval)
  have i: "isInitialized ?st" by simp
  have h: "hasData ?d = Inr True"
    by (simp add: hasData_def initialData_def bindE_def)
  have q: "?sreq = LatexSection (trigChangeType ?t) (trigSection ?t) (sectionDataOf (trigSection ?t) ?d)"
    by (simp add: sectionDataOf_def initialData_def)
  have f: "latexReply ''No LaTeX code returned from section update'' (?srv (requests ?st) ?sreq)
      = Inl (Error (HttpBody 500 ''boom''))"
    by (simp add: latexReply_def ok_def)
  have g: "?hreq = LatexHeader (name ?d) (contact ?d)"
    by (simp add: initialData_def)
  from section_failure_falls_back [OF s i h q f g refl]
  show ?thesis by (simp add: initialPreview_def)
qed

text \<open>
  Claim C3 as stated fails when the document has become empty: the generator is
  initialized, the section generation of the emptied document fails with status 500, and
  the session ends with the section request as its last request, no error shown.
\<close>

theorem section_failure_no_fallback_counterexample:
  "session
     (\<lambda>h r. if isSectionGeneration r
        then Resolved \<lparr>status = 500, bodyText = ''boom'', bodyJson = None\<rparr>
        else Resolved \<lparr>status = 200, bodyText = [], bodyJson = Some (JObj
          [(''success'', JBool True), (''latexCode'', JStr ''doc'')])\<rparr>)
     [(initialData\<lparr>name := JObj [(''firstName'', JStr ''Ada''), (''lastName'', JStr '''')]\<rparr>,
         ClickScrapeTemplate),
      (initialData\<lparr>name := JObj [(''firstName'', JStr ''Ada''), (''lastName'', JStr '''')]\<rparr>,
         Submit \<lparr>trigSection = ''header'', trigEntryId = ''header_bundle'',
           trigChangeType = ''update'', timestamp = 1\<rparr>),
      (initialData,
         Submit \<lparr>trigSection = ''education'', trigEntryId = ''education'',
           trigChangeType = ''update'', timestamp = 2\<rparr>)]
     initialPreview
   = \<lparr>latexCode = JStr ''doc'', isUpdating = False, error = None, updates = 0,
       hasGeneratedPreview = True, isTemplateScraped = True, isScrapingTemplate = False,
       isInitialized = True,
       requests = [TemplateScrape,
         LatexHeader (JObj [(''firstName'', JStr ''Ada''), (''lastName'', JStr '''')]) [],
         LatexSection ''update'' ''education'' (SectionEntries [])]\<rparr>"
  by (simp add: preview_eval)

section \<open>Properties of adding entries\<close>

lemma digit_cases:
  "d < 10 \<Longrightarrow> d = 0 \<or> d = 1 \<or> d = 2 \<or> d = 3 \<or> d = 4 \<or> d = 5 \<or> d = 6 \<or> d = 7
     \<or> d = 8 \<or> d = (9::nat)"
  by arith

lemma digitValue_digitChar: "d < 10 \<Longrightarrow> digitValue (digitChar d) = d"
  using digit_cases[of d] by (auto simp: digitValue_def digitChar_def)

lemma valueOf_digitsOf: "valueOf (digitsOf n) = n"
proof (induction n rule: digitsOf.induct)
  case (1 n)
  show ?case
  proof (cases "n < 10")
    case True
    then show ?thesis by (simp add: digitsOf.simps[of n] valueOf_def digitValue_digitChar)
  next
    case False
    with 1 have "valueOf (digitsOf (n div 10)) = n div 10" by simp
    with False show ?thesis
      by (simp add: digitsOf.simps[of n] valueOf_def digitValue_digitChar)
  qed
qed

lemma digitsOf_inj: "digitsOf m = digitsOf n \<Longrightarrow> m = n"
  by (metis valueOf_digitsOf)

lemma digitChar_not_minus: "d < 10 \<Longrightarrow> digitChar d \<noteq> CHR ''-''"
  using digit_cases[of d] by (auto simp: digitChar_def)

lemma digitsOf_hd: "\<exists>c cs. digitsOf n = c # cs \<and> c \<noteq> CHR ''-''"
proof (induction n rule: digitsOf.induct)
  case (1 n)
  show ?case
  proof (cases "n < 10")
    case True
    then show ?thesis by (simp add: digitsOf.simps[of n] digitChar_not_minus)
  next
    case False
    with 1 obtain c cs where "digitsOf (n div 10) = c # cs" "c \<noteq> CHR ''-''" by blast
    with False show ?thesis by (simp add: digitsOf.simps[of n])
  qed
qed

lemma showInt_inj: "showInt i = showInt j \<Longrightarrow> i = j"
proof -
  assume e: "showInt i = showInt j"
  obtain c cs where ci: "digitsOf (nat i) = c # cs" "c \<noteq> CHR ''-''" using digitsOf_hd by blast
  obtain c' cs' where cj: "digitsOf (nat j) = c' # cs'" "c' \<noteq> CHR ''-''" using digitsOf_hd by blast
  consider "i < 0" "j < 0" | "i \<ge> 0" "j \<ge> 0" | "i < 0" "j \<ge> 0" | "i \<ge> 0" "j < 0" by linarith
  then show ?thesis
  proof cases
    case 1
    with e have "digitsOf (nat (- i)) = digitsOf (nat (- j))" by (simp add: showInt_def)
    then have "nat (- i) = nat (- j)" by (rule digitsOf_inj)
    with 1 show ?thesis by simp
  next
    case 2
    with e have "digitsOf (nat i) = digitsOf (nat j)" by (simp add: showInt_def)
    then have "nat i = nat j" by (rule digitsOf_inj)
    with 2 show ?thesis by simp
  next
    case 3
    with e cj show ?thesis by (simp add: showInt_def)
  next
    case 4
    with e ci show ?thesis by (simp add: showInt_def)
  qed
qed

lemma ids_distinct:
  "distinct ts \<Longrightarrow> distinct (map (\<lambda>t. JStr (p @ showInt t)) ts)"
  by (simp add: distinct_map inj_on_def showInt_inj)

lemma someE_total:
  "list_all (\<lambda>e. \<exists>x. get_prop e ''skill'' = Inr (JStr x)) xs \<Longrightarrow>
     \<exists>b. someE (sameSkill lower w) xs = Inr b"
  by (induction xs) (auto simp: sameSkill_def bindE_def)

lemma sectionList_education [simp]:
  "sectionList s (d\<lparr>education := xs\<rparr>) = (if s = ''education'' then xs else sectionList s d)"
  by (simp add: sectionList_def)

lemma sectionList_experience [simp]:
  "sectionList s (d\<lparr>experience := xs\<rparr>) = (if s = ''experience'' then xs else sectionList s d)"
  by (simp add: sectionList_def)

lemma sectionList_contact [simp]:
  "sectionList s (d\<lparr>contact := xs\<rparr>) = (if s = ''contact'' then xs else sectionList s d)"
  by (simp add: sectionList_def)

lemma sectionList_skills [simp]:
  "sectionList s (d\<lparr>skills := xs\<rparr>) = (if s = ''skills'' then xs else sectionList s d)"
  by (simp add: sectionList_def)

lemma sectionList_customSections [simp]:
  "sectionList s (d\<lparr>customSections := xs\<rparr>) = (if s = ''customSections'' then xs else sectionList s d)"
  by (simp add: sectionList_def)

lemma handleUpdate_add:
  assumes "sectionName u \<in> set listSections" "changeType u = Add"
  shows "\<exists>d1. handleUpdate u d = Inr d1
     \<and> (\<forall>s. sectionList s d1 = (if s = sectionName u then sectionList s d @ [content u] else sectionList s d))
     \<and> (sectionName u \<noteq> ''skills'' \<longrightarrow> skills d1 = skills d)
     \<and> (sectionName u = ''skills'' \<longrightarrow> skills d1 = skills d @ [content u])"
  using assms
  by (auto simp: listSections_def handleUpdate_def applyToList_def bindE_def sectionList_def)

lemma handleAdd_accepts:
  assumes "guardPasses trim lower a d"
  shows "\<exists>u. handleAdd trim lower now a d = Inr (Some u)
     \<and> sectionName u = targetOf a \<and> changeType u = Add
     \<and> entryId u = idPrefix (targetOf a) @ showInt now
     \<and> opt_prop (content u) ''id'' = JStr (idPrefix (targetOf a) @ showInt now)
     \<and> (targetOf a = ''skills'' \<longrightarrow> (\<exists>x. get_prop (content u) ''skill'' = Inr (JStr x)))"
  using assms
  by (cases a)
     (simp_all add: handleAdd_def educationHandleAdd_def educationEntry_def
        experienceHandleAdd_def experienceEntry_def contactHandleAdd_def contactEntry_def
        skillsHandleAdd_def skillEntry_def addSection_def idPrefix_def opt_prop_def bindE_def)

lemma handleAdd_rejects:
  assumes "\<not> guardPasses trim lower a d"
  shows "handleAdd trim lower now a d \<noteq> Inr (Some u)"
  using assms
  by (cases a)
     (auto simp: handleAdd_def educationHandleAdd_def experienceHandleAdd_def
        contactHandleAdd_def skillsHandleAdd_def bindE_def split: sum.splits)

lemma handleAdd_total:
  assumes "list_all (\<lambda>e. \<exists>x. get_prop e ''skill'' = Inr (JStr x)) (skills d)"
  shows "guardPasses trim lower a d \<or> handleAdd trim lower now a d = Inr None"
proof (cases a)
  case (AddSkill newSkill)
  from someE_total[OF assms, of lower "trim newSkill"] obtain known where
    "someE (sameSkill lower (trim newSkill)) (skills d) = Inr known" by blast
  with AddSkill show ?thesis
    by (auto simp: handleAdd_def skillsHandleAdd_def bindE_def)
qed (auto simp: handleAdd_def educationHandleAdd_def experienceHandleAdd_def contactHandleAdd_def)

lemma targetOf_list: "targetOf a \<in> set listSections"
  by (cases a) (simp_all add: listSections_def)

lemma readings_Cons:
  "readings s ((now, a) # evs) = (if targetOf a = s then now # readings s evs else readings s evs)"
  by (simp add: readings_def)

lemma adds_ids:
  assumes "\<forall>s\<in>set listSections. distinct (readings s evs)"
    and "list_all (\<lambda>e. \<exists>x. get_prop e ''skill'' = Inr (JStr x)) (skills d)"
  shows "\<exists>d'. adds trim lower evs d = Inr d'
     \<and> (\<forall>s\<in>set listSections. \<exists>ts.
          entryIds (sectionList s d') =
            entryIds (sectionList s d) @ map (\<lambda>t. JStr (idPrefix s @ showInt t)) ts
          \<and> distinct ts \<and> set ts \<subseteq> set (readings s evs))"
  using assms
proof (induction evs arbitrary: d)
  case Nil
  have "\<forall>s\<in>set listSections. \<exists>ts.
          entryIds (sectionList s d) =
            entryIds (sectionList s d) @ map (\<lambda>t. JStr (idPrefix s @ showInt t)) ts
          \<and> distinct ts \<and> set ts \<subseteq> set (readings s [])"
    by (intro ballI exI[of _ "[]"]) simp
  then show ?case by simp
next
  case (Cons ev evs)
  obtain now a where ev: "ev = (now, a)" by (cases ev)
  have dist: "\<forall>s\<in>set listSections. distinct (readings s evs)"
    using Cons.prems(1) ev by (auto simp: readings_Cons split: if_splits)
  have mono: "\<And>s. set (readings s evs) \<subseteq> set (readings s (ev # evs))"
    using ev by (auto simp: readings_Cons)
  show ?case
  proof (cases "guardPasses trim lower a d")
    case False
    with handleAdd_total[OF Cons.prems(2), of trim lower a now]
    have none: "handleAdd trim lower now a d = Inr None" by simp
    from Cons.IH[OF dist Cons.prems(2)] obtain d' where d':
      "adds trim lower evs d = Inr d'"
      "\<forall>s\<in>set listSections. \<exists>ts.
          entryIds (sectionList s d') =
            entryIds (sectionList s d) @ map (\<lambda>t. JStr (idPrefix s @ showInt t)) ts
          \<and> distinct ts \<and> set ts \<subseteq> set (readings s evs)" by blast
    from none ev d'(1) have run: "adds trim lower (ev # evs) d = Inr d'"
      by (simp add: bindE_def)
    have "\<forall>s\<in>set listSections. \<exists>ts.
          entryIds (sectionList s d') =
            entryIds (sectionList s d) @ map (\<lambda>t. JStr (idPrefix s @ showInt t)) ts
          \<and> distinct ts \<and> set ts \<subseteq> set (readings s (ev # evs))"
      using d'(2) mono by blast
    with run show ?thesis by blast
  next
    case True
    from handleAdd_accepts[OF True, of now] obtain u where u:
      "handleAdd trim lower now a d = Inr (Some u)"
      "sectionName u = targetOf a" "changeType u = Add"
      "opt_prop (content u) ''id'' = JStr (idPrefix (targetOf a) @ showInt now)"
      "targetOf a = ''skills'' \<longrightarrow> (\<exists>x. get_prop (content u) ''skill'' = Inr (JStr x))"
      by blast
    from u(2) targetOf_list[of a] have "sectionName u \<in> set listSections" by simp
    from handleUpdate_add[OF this u(3), of d] obtain d1 where d1:
      "handleUpdate u d = Inr d1"
      "\<forall>s. sectionList s d1 = (if s = sectionName u then sectionList s d @ [content u] else sectionList s d)"
      "sectionName u \<noteq> ''skills'' \<longrightarrow> skills d1 = skills d"
      "sectionName u = ''skills'' \<longrightarrow> skills d1 = skills d @ [content u]"
      by blast
    have wf1: "list_all (\<lambda>e. \<exists>x. get_prop e ''skill'' = Inr (JStr x)) (skills d1)"
      using Cons.prems(2) d1(3,4) u(2,5) by (cases "sectionName u = ''skills''") auto
    from Cons.IH[OF dist wf1] obtain d' where d':
      "adds trim lower evs d1 = Inr d'"
      "\<forall>s\<in>set listSections. \<exists>ts.
          entryIds (sectionList s d') =
            entryIds (sectionList s d1) @ map (\<lambda>t. JStr (idPrefix s @ showInt t)) ts
          \<and> distinct ts \<and> set ts \<subseteq> set (readings s evs)" by blast
    from u(1) d1(1) ev d'(1) have run: "adds trim lower (ev # evs) d = Inr d'"
      by (simp add: bindE_def)
    have "\<forall>s\<in>set listSections. \<exists>ts.
          entryIds (sectionList s d') =
            entryIds (sectionList s d) @ map (\<lambda>t. JStr (idPrefix s @ showInt t)) ts
          \<and> distinct ts \<and> set ts \<subseteq> set (readings s (ev # evs))"
    proof
      fix s assume s: "s \<in> set listSections"
      from d'(2) s obtain ts where ts:
        "entryIds (sectionList s d') =
            entryIds (sectionList s d1) @ map (\<lambda>t. JStr (idPrefix s @ showInt t)) ts"
        "distinct ts" "set ts \<subseteq> set (readings s evs)" by blast
      show "\<exists>ts. entryIds (sectionList s d') =
            entryIds (sectionList s d) @ map (\<lambda>t. JStr (idPrefix s @ showInt t)) ts
          \<and> distinct ts \<and> set ts \<subseteq> set (readings s (ev # evs))"
      proof (cases "s = targetOf a")
        case False
        with d1(2) u(2) have "sectionList s d1 = sectionList s d" by simp
        with ts mono[of s] show ?thesis by auto
      next
        case True
        with d1(2) u(2) have l: "sectionList s d1 = sectionList s d @ [content u]" by simp
        from Cons.prems(1) s True ev have "now \<notin> set (readings s evs)"
          by (auto simp: readings_Cons)
        with ts(2,3) have dn: "distinct (now # ts)" by auto
        from ts(3) True ev have sub: "set (now # ts) \<subseteq> set (readings s (ev # evs))"
          by (auto simp: readings_Cons)
        from ts(1) l u(4) True have "entryIds (sectionList s d') =
            entryIds (sectionList s d) @ map (\<lambda>t. JStr (idPrefix s @ showInt t)) (now # ts)"
          by (simp add: entryIds_def)
        with dn sub show ?thesis by blast
      qed
    qed
    with run show ?thesis by blast
  qed
qed

lemma adds_unique:
  assumes "\<forall>s\<in>set listSections. distinct (readings s evs)"
  shows "\<exists>d'. adds trim lower evs initialData = Inr d'
     \<and> (\<forall>s\<in>set listSections.
          (\<exists>ts. entryIds (sectionList s d') = map (\<lambda>t. JStr (idPrefix s @ showInt t)) ts
             \<and> set ts \<subseteq> set (readings s evs))
          \<and> distinct (entryIds (sectionList s d')))"
proof -
  have "list_all (\<lambda>e. \<exists>x. get_prop e ''skill'' = Inr (JStr x)) (skills initialData)"
    by (simp add: initialData_def)
  from adds_ids[OF assms this, of trim lower] obtain d' where d':
    "adds trim lower evs initialData = Inr d'"
    "\<forall>s\<in>set listSections. \<exists>ts.
          entryIds (sectionList s d') =
            entryIds (sectionList s initialData) @ map (\<lambda>t. JStr (idPrefix s @ showInt t)) ts
          \<and> distinct ts \<and> set ts \<subseteq> set (readings s evs)" by blast
  have "\<forall>s\<in>set listSections.
          (\<exists>ts. entryIds (sectionList s d') = map (\<lambda>t. JStr (idPrefix s @ showInt t)) ts
             \<and> set ts \<subseteq> set (readings s evs))
          \<and> distinct (entryIds (sectionList s d'))"
  proof
    fix s assume "s \<in> set listSections"
    with d'(2) obtain ts where ts:
      "entryIds (sectionList s d') =
            entryIds (sectionList s initialData) @ map (\<lambda>t. JStr (idPrefix s @ showInt t)) ts"
      "distinct ts" "set ts \<subseteq> set (readings s evs)" by blast
    have "entryIds (sectionList s initialData) = []"
      by (simp add: entryIds_def sectionList_def initialData_def)
    with ts(1) have e: "entryIds (sectionList s d') = map (\<lambda>t. JStr (idPrefix s @ showInt t)) ts"
      by simp
    with ids_distinct[OF ts(2), of "idPrefix s"] ts(3)
    show "(\<exists>ts. entryIds (sectionList s d') = map (\<lambda>t. JStr (idPrefix s @ showInt t)) ts
             \<and> set ts \<subseteq> set (readings s evs))
          \<and> distinct (entryIds (sectionList s d'))"
      by auto
  qed
  with d'(1) show ?thesis by blast
qed

lemma handleAdd_stores:
  assumes "guardPasses trim lower a d"
  shows "\<exists>u d1. handleAdd trim lower now a d = Inr (Some u)
     \<and> sectionName u = targetOf a \<and> changeType u = Add
     \<and> entryId u = idPrefix (targetOf a) @ showInt now
     \<and> opt_prop (content u) ''id'' = JStr (idPrefix (targetOf a) @ showInt now)
     \<and> handleUpdate u d = Inr d1
     \<and> sectionList (targetOf a) d1 = sectionList (targetOf a) d @ [content u]"
proof -
  from handleAdd_accepts[OF assms, of now] obtain u where u:
    "handleAdd trim lower now a d = Inr (Some u)"
    "sectionName u = targetOf a" "changeType u = Add"
    "entryId u = idPrefix (targetOf a) @ showInt now"
    "opt_prop (content u) ''id'' = JStr (idPrefix (targetOf a) @ showInt now)"
    by blast
  from u(2) targetOf_list[of a] have "sectionName u \<in> set listSections" by simp
  from handleUpdate_add[OF this u(3), of d] obtain d1 where
    "handleUpdate u d = Inr d1"
    "\<forall>s. sectionList s d1 = (if s = sectionName u then sectionList s d @ [content u] else sectionList s d)"
    by blast
  with u show ?thesis by auto
qed

text \<open>
  Claim C9, as amended. An add operation whose component passes a message on (education:
  degree and institution filled in; experience: title and company; contact: type and
  value; skills: a name that is not empty and not yet stored; custom sections: always)
  appends to its list one entry that carries the id made of the list's prefix (edu_,
  exp_, contact_, skill_, none for custom sections) and the clock reading of the add;
  otherwise nothing is passed on. After any sequence of add operations on the initial
  document in which the adds to one list have pairwise distinct clock readings, every id
  in a list is the prefix followed by the reading of one of its adds, and no two entries
  of a list share an id.
\<close>

theorem added_entries_carry_clock_ids:
  "(guardPasses trim toLowerCase a d \<longrightarrow>
      (\<exists>u d1. handleAdd trim toLowerCase now a d = Inr (Some u)
         \<and> sectionName u = targetOf a \<and> changeType u = Add
         \<and> entryId u = idPrefix (targetOf a) @ showInt now
         \<and> opt_prop (content u) ''id'' = JStr (idPrefix (targetOf a) @ showInt now)
         \<and> handleUpdate u d = Inr d1
         \<and> sectionList (targetOf a) d1 = sectionList (targetOf a) d @ [content u]))
   \<and> (\<not> guardPasses trim toLowerCase a d \<longrightarrow>
        (\<forall>u. handleAdd trim toLowerCase now a d \<noteq> Inr (Some u)))
   \<and> ((\<forall>s\<in>set listSections. distinct (readings s evs)) \<longrightarrow>
      (\<exists>d'. adds trim toLowerCase evs initialData = Inr d'
         \<and> (\<forall>s\<in>set listSections.
              (\<exists>ts. entryIds (sectionList s d') = map (\<lambda>t. JStr (idPrefix s @ showInt t)) ts
                 \<and> set ts \<subseteq> set (readings s evs))
              \<and> distinct (entryIds (sectionList s d')))))"
proof (intro conjI impI)
  assume "guardPasses trim toLowerCase a d"
  then show "\<exists>u d1. handleAdd trim toLowerCase now a d = Inr (Some u)
         \<and> sectionName u = targetOf a \<and> changeType u = Add
         \<and> entryId u = idPrefix (targetOf a) @ showInt now
         \<and> opt_prop (content u) ''id'' = JStr (idPrefix (targetOf a) @ showInt now)
         \<and> handleUpdate u d = Inr d1
         \<and> sectionList (targetOf a) d1 = sectionList (targetOf a) d @ [content u]"
    by (rule handleAdd_stores)
next
  assume "\<not> guardPasses trim toLowerCase a d"
  then show "\<forall>u. handleAdd trim toLowerCase now a d \<noteq> Inr (Some u)"
    using handleAdd_rejects by blast
next
  assume "\<forall>s\<in>set listSections. distinct (readings s evs)"
  then show "\<exists>d'. adds trim toLowerCase evs initialData = Inr d'
         \<and> (\<forall>s\<in>set listSections.
              (\<exists>ts. entryIds (sectionList s d') = map (\<lambda>t. JStr (idPrefix s @ showInt t)) ts
                 \<and> set ts \<subseteq> set (readings s evs))
              \<and> distinct (entryIds (sectionList s d')))"
    by (rule adds_unique)
qed

theorem added_entries_carry_clock_ids_witness:
  "(\<exists>u d1. handleAdd id id 1700000000000 AddCustomSection initialData = Inr (Some u)
       \<and> entryId u = ''1700000000000''
       \<and> opt_prop (content u) ''id'' = JStr ''1700000000000''
       \<and> handleUpdate u initialData = Inr d1
       \<and> customSections d1 = [content u])
   \<and> handleAdd id id 1700000000000 (AddContact \<lparr>contactType = ''Email'', contactValue = []\<rparr>)
        initialData = Inr None
   \<and> (\<exists>d'. adds id id
        [(1700000000000, AddEducation \<lparr>degree = ''BSc'', institution = ''MIT'', startDate = [],
            endDate = [], description = JStr []\<rparr>),
         (1700000000000, AddExperience \<lparr>title = ''Engineer'', company = ''ACME'',
            expStartDate = [], expEndDate = [], expDescription = JStr [], expKeywords = [''hol'']\<rparr>),
         (1700000000001, AddContact \<lparr>contactType = ''Email'', contactValue = ''a@b.c''\<rparr>),
         (1700000000002, AddSkill ''ML''),
         (1700000000003, AddSkill ''ML''),
         (1700000000004, AddCustomSection),
         (1700000000005, AddEducation \<lparr>degree = ''MSc'', institution = ''ETH'', startDate = [],
            endDate = [], description = JStr []\<rparr>)]
        initialData = Inr d'
      \<and> distinct (entryIds (education d')) \<and> distinct (entryIds (experience d'))
      \<and> distinct (entryIds (contact d')) \<and> distinct (entryIds (skills d'))
      \<and> distinct (entryIds (customSections d')))"
proof -
  let ?evs = "[(1700000000000, AddEducation \<lparr>degree = ''BSc'', institution = ''MIT'', startDate = [],
            endDate = [], description = JStr []\<rparr>),
         (1700000000000, AddExperience \<lparr>title = ''Engineer'', company = ''ACME'',
            expStartDate = [], expEndDate = [], expDescription = JStr [], expKeywords = [''hol'']\<rparr>),
         (1700000000001, AddContact \<lparr>contactType = ''Email'', contactValue = ''a@b.c''\<rparr>),
         (1700000000002, AddSkill ''ML''),
         (1700000000003, AddSkill ''ML''),
         (1700000000004, AddCustomSection),
         (1700000000005, AddEducation \<lparr>degree = ''MSc'', institution = ''ETH'', startDate = [],
            endDate = [], description = JStr []\<rparr>)]"
  have g: "guardPasses id id AddCustomSection initialData" by simp
  from added_entries_carry_clock_ids [THEN conjunct1, rule_format, OF g, of 1700000000000]
  obtain u d1 where u:
    "handleAdd id id 1700000000000 AddCustomSection initialData = Inr (Some u)"
    "entryId u = idPrefix (targetOf AddCustomSection) @ showInt 1700000000000"
    "opt_prop (content u) ''id'' = JStr (idPrefix (targetOf AddCustomSection) @ showInt 1700000000000)"
    "handleUpdate u initialData = Inr d1"
    "sectionList (targetOf AddCustomSection) d1
       = sectionList (targetOf AddCustomSection) initialData @ [content u]"
    by blast
  have p: "idPrefix (targetOf AddCustomSection) @ showInt 1700000000000 = ''1700000000000''"
    by (simp add: idPrefix_def showInt_def digitsOf.simps digitChar_def)
  from u(5) have "customSections d1 = [content u]"
    by (simp add: sectionList_def initialData_def)
  with u(1,2,3,4) p
  have a: "\<exists>u d1. handleAdd id id 1700000000000 AddCustomSection initialData = Inr (Some u)
       \<and> entryId u = ''1700000000000''
       \<and> opt_prop (content u) ''id'' = JStr ''1700000000000''
       \<and> handleUpdate u initialData = Inr d1
       \<and> customSections d1 = [content u]"
    by (intro exI[of _ u] exI[of _ d1]) simp
  have n: "\<not> guardPasses id id (AddContact \<lparr>contactType = ''Email'', contactValue = []\<rparr>) initialData"
    by simp
  from added_entries_carry_clock_ids [THEN conjunct2, THEN conjunct1, rule_format, OF n,
      of 1700000000000]
  have b: "handleAdd id id 1700000000000 (AddContact \<lparr>contactType = ''Email'', contactValue = []\<rparr>)
        initialData = Inr None"
    by (simp add: handleAdd_def contactHandleAdd_def)
  have r: "\<forall>s\<in>set listSections. distinct (readings s ?evs)"
    by (simp add: listSections_def readings_def)
  from added_entries_carry_clock_ids [where trim = id and toLowerCase = id and evs = ?evs,
      THEN conjunct2, THEN conjunct2, THEN mp, OF r]
  have c: "\<exists>d'. adds id id ?evs initialData = Inr d'
      \<and> distinct (entryIds (education d')) \<and> distinct (entryIds (experience d'))
      \<and> distinct (entryIds (contact d')) \<and> distinct (entryIds (skills d'))
      \<and> distinct (entryIds (customSections d'))"
    by (auto simp: listSections_def sectionList_def)
  from a b c show ?thesis by blast
qed

text \<open>
  Claim C9 as stated fails: two education entries added at the same clock reading
  carry the same id.
\<close>

theorem added_ids_collide_counterexample:
  "adds id id
     [(1700000000000, AddEducation \<lparr>degree = ''BSc'', institution = ''MIT'', startDate = [],
          endDate = [], description = JStr []\<rparr>),
      (1700000000000, AddEducation \<lparr>degree = ''MSc'', institution = ''ETH'', startDate = [],
          endDate = [], description = JStr []\<rparr>)]
     initialData
   = Inr (initialData\<lparr>education :=
       [JObj [(''id'', JStr ''edu_1700000000000''), (''degree'', JStr ''BSc''),
              (''institution'', JStr ''MIT''), (''startDate'', JStr []), (''endDate'', JStr []),
              (''description'', JStr [])],
        JObj [(''id'', JStr ''edu_1700000000000''), (''degree'', JStr ''MSc''),
              (''institution'', JStr ''ETH''), (''startDate'', JStr []), (''endDate'', JStr []),
              (''description'', JStr [])]]\<rparr>)"
  by (simp add: handleAdd_def educationHandleAdd_def educationEntry_def handleUpdate_def
      applyToList_def bindE_def initialData_def showInt_def digitsOf.simps digitChar_def)

end
